(* ===== verification/Prelude.thy ===== *)
theory Prelude
  imports Complex_Main "HOL-Library.Multiset"
begin

text \<open>
  The Python built-ins the repository's code relies on, as executable HOL functions,
  and the lemmas on them that the component theories share.
  \<^item> A Python \<open>dict\<close> keeps its keys in insertion order; the code iterates over
    one (\<open>hexagons.items()\<close> in \<open>h3_visualizer.py\<close>), so it is an association list
    with distinct keys: \<open>dict_get\<close> is \<open>d.get(k, default)\<close>, \<open>dict_set\<close> is
    \<open>d[k] = v\<close> (an existing key keeps its place, a new key goes last).
  \<^item> \<open>count_values\<close> is the counting loop \<open>d[k] = d.get(k, 0) + 1\<close> over a list.
  \<^item> \<open>py_int\<close> is \<open>int()\<close> on a float (truncation towards zero).
  \<^item> \<open>fmt_02x\<close> is the format spec \<open>{:02x}\<close> on an int, \<open>nat_str\<close> is \<open>str()\<close>
    on a non-negative int, \<open>py_in\<close> is the substring test \<open>a in b\<close> and
    \<open>py_replace\<close> is \<open>str.replace\<close>.
  \<open>None\<close> in a column of type \<open>'a option\<close> is pandas' missing value (NaN / NaT).
\<close>

named_theorems dict_simps "characteristic equations of the dict model"

type_synonym ('k, 'v) pydict = "('k \<times> 'v) list"

text \<open>A pandas timestamp (\<open>datetime64[ns]\<close>): nanoseconds since the epoch.\<close>
type_synonym timestamp = int

text \<open>A point as folium and geopy take it: (latitude, longitude).\<close>
type_synonym latlng = "real \<times> real"

definition dict_get :: "('k, 'v) pydict \<Rightarrow> 'k \<Rightarrow> 'v \<Rightarrow> 'v" where
  "dict_get d k dflt = (case map_of d k of None \<Rightarrow> dflt | Some v \<Rightarrow> v)"

fun dict_set :: "('k, 'v) pydict \<Rightarrow> 'k \<Rightarrow> 'v \<Rightarrow> ('k, 'v) pydict" where
  "dict_set [] k v = [(k, v)]"
| "dict_set ((k', v') # d) k v =
     (if k' = k then (k, v) # d else (k', v') # dict_set d k v)"

definition count_step :: "('k, nat) pydict \<Rightarrow> 'k \<Rightarrow> ('k, nat) pydict" where
  "count_step d k = dict_set d k (dict_get d k 0 + 1)"

definition count_values :: "'k list \<Rightarrow> ('k, nat) pydict" where
  "count_values ks = foldl count_step [] ks"

text \<open>Sequencing of code that may raise: the first exception propagates.\<close>

definition ebind :: "'e + 'a \<Rightarrow> ('a \<Rightarrow> 'e + 'b) \<Rightarrow> 'e + 'b" where
  "ebind m f = (case m of Inl e \<Rightarrow> Inl e | Inr a \<Rightarrow> f a)"

text \<open>\<open>repr()\<close> of a string without quotes or backslashes in it.\<close>

definition py_repr_str :: "string \<Rightarrow> string" where
  "py_repr_str s = CHR 0x27 # s @ [CHR 0x27]"

text \<open>\<open>str()\<close> of a cell that may be NaN.\<close>

definition py_str_opt :: "string option \<Rightarrow> string" where
  "py_str_opt c = (case c of None \<Rightarrow> ''nan'' | Some s \<Rightarrow> s)"

text \<open>\<open>template.format(arg)\<close> for a template with one \<open>{}\<close>.\<close>

fun py_format1 :: "string \<Rightarrow> string \<Rightarrow> string" where
  "py_format1 [] arg = []"
| "py_format1 (c # cs) arg =
     (if c = CHR ''{'' \<and> cs \<noteq> [] \<and> hd cs = CHR ''}'' then arg @ tl cs else c # py_format1 cs arg)"

definition py_int :: "real \<Rightarrow> int" where
  "py_int x = (if 0 \<le> x then \<lfloor>x\<rfloor> else \<lceil>x\<rceil>)"

definition digit_char :: "nat \<Rightarrow> char" where
  "digit_char d = ''0123456789abcdef'' ! d"

definition hex_digits :: string where
  "hex_digits = ''0123456789abcdef''"

fun show_base :: "nat \<Rightarrow> nat \<Rightarrow> string" where
  "show_base b n =
     (if b \<le> 1 \<or> n < b then [digit_char n]
      else show_base b (n div b) @ [digit_char (n mod b)])"

definition nat_str :: "nat \<Rightarrow> string" where
  "nat_str n = show_base 10 n"

definition zpad :: "nat \<Rightarrow> string \<Rightarrow> string" where
  "zpad w s = replicate (w - length s) (CHR ''0'') @ s"

definition fmt_02x :: "int \<Rightarrow> string" where
  "fmt_02x i =
     (if i < 0 then ''-'' @ zpad 1 (show_base 16 (nat (- i)))
      else zpad 2 (show_base 16 (nat i)))"

fun py_in :: "string \<Rightarrow> string \<Rightarrow> bool" where
  "py_in n [] = (n = [])"
| "py_in n (c # h) = (take (length n) (c # h) = n \<or> py_in n h)"

function py_replace :: "string \<Rightarrow> string \<Rightarrow> string \<Rightarrow> string" where
  "py_replace old new [] = (if old = [] then new else [])"
| "py_replace old new (c # s) =
     (if old = [] then new @ c # py_replace old new s
      else if take (length old) (c # s) = old
      then new @ py_replace old new (drop (length old) (c # s))
      else c # py_replace old new s)"
  by pat_completeness auto
termination
  by (relation "measure (\<lambda>(old, new, s). length s)") auto

text \<open>Reading the hexadecimal digits back, for the round trip of \<open>show_base\<close>.\<close>

definition digit_val :: "char \<Rightarrow> nat" where
  "digit_val c =
     (let n = (of_char c :: nat)
      in if 48 \<le> n \<and> n \<le> 57 then n - 48
         else if 97 \<le> n \<and> n \<le> 102 then n - 87 else 0)"

definition read_base :: "nat \<Rightarrow> string \<Rightarrow> nat" where
  "read_base b s = foldl (\<lambda>acc c. acc * b + digit_val c) 0 s"

declare show_base.simps [simp del]

lemma ebind_Inl [simp]: "ebind (Inl e) f = Inl e"
  by (simp add: ebind_def)

lemma ebind_Inr [simp]: "ebind (Inr a) f = f a"
  by (simp add: ebind_def)

lemma ebind_eq_Inr: "ebind m f = Inr b \<longleftrightarrow> (\<exists>a. m = Inr a \<and> f a = Inr b)"
  by (cases m) (simp_all add: ebind_def)

subsection \<open>Lists\<close>

lemma zip_map_self: "zip xs (map f xs) = map (\<lambda>x. (x, f x)) xs"
  by (induction xs) auto

lemma count_list_map_filter:
  "count_list (List.map_filter f xs) y = length (filter (\<lambda>x. f x = Some y) xs)"
  by (induction xs) (auto simp: List.map_filter_def)

lemma map_filter_append_skip:
  "f x = None \<Longrightarrow> List.map_filter f (xs @ x # ys) = List.map_filter f (xs @ ys)"
  by (simp add: List.map_filter_def)

lemma in_set_map_filter: "x \<in> set xs \<Longrightarrow> f x = Some y \<Longrightarrow> y \<in> set (List.map_filter f xs)"
  by (induction xs) (auto simp: List.map_filter_def)

subsection \<open>The dict model\<close>

lemma map_of_dict_set [dict_simps]: "map_of (dict_set d k v) = (map_of d)(k \<mapsto> v)"
  by (induction d) (auto simp: fun_eq_iff)

lemma keys_dict_set [dict_simps]:
  "map fst (dict_set d k v) = (if k \<in> fst ` set d then map fst d else map fst d @ [k])"
proof (induction d)
  case Nil
  then show ?case by simp
next
  case (Cons p d)
  then show ?case by (cases p) (simp add: image_iff)
qed

lemma distinct_dict_set [dict_simps]:
  "distinct (map fst d) \<Longrightarrow> distinct (map fst (dict_set d k v))"
  by (simp add: keys_dict_set)

lemma sum_dict_set:
  "sum_list (map snd (dict_set d k v)) + dict_get d k 0 = sum_list (map snd d) + (v::nat)"
  by (induction d) (auto simp: dict_get_def)

lemma dict_get_count_step [dict_simps]:
  "dict_get (count_step d k) k' 0 = dict_get d k' 0 + (if k = k' then 1 else 0)"
  by (simp add: count_step_def dict_get_def map_of_dict_set)

lemma dict_get_foldl_count_step:
  "dict_get (foldl count_step d ks) k 0 = dict_get d k 0 + count_list ks k"
  by (induction ks arbitrary: d) (auto simp: dict_get_count_step)

lemma keys_foldl_count_step:
  "fst ` set (foldl count_step d ks) = fst ` set d \<union> set ks"
  proof (induction ks arbitrary: d)
  case Nil
  then show ?case by simp
next
  case (Cons k ks)
  have "fst ` set (count_step d k) = insert k (fst ` set d)"
    using keys_dict_set [of d k "dict_get d k 0 + 1"]
    by (auto simp: count_step_def simp flip: set_map)
  with Cons.IH show ?case by auto
qed

lemma distinct_foldl_count_step:
  "distinct (map fst d) \<Longrightarrow> distinct (map fst (foldl count_step d ks))"
  by (induction ks arbitrary: d) (auto simp: count_step_def distinct_dict_set)

lemma sum_foldl_count_step:
  "sum_list (map snd (foldl count_step d ks)) = sum_list (map snd d) + length ks"
proof (induction ks arbitrary: d)
  case Nil
  then show ?case by simp
next
  case (Cons k ks)
  have "sum_list (map snd (count_step d k)) = sum_list (map snd d) + 1"
    using sum_dict_set [of d k "dict_get d k 0 + 1"] by (simp add: count_step_def)
  with Cons.IH show ?case by simp
qed

lemma count_values_keys: "fst ` set (count_values ks) = set ks"
  by (simp add: count_values_def keys_foldl_count_step)

lemma count_values_distinct: "distinct (map fst (count_values ks))"
  by (simp add: count_values_def distinct_foldl_count_step)

lemma count_values_sum: "sum_list (map snd (count_values ks)) = length ks"
  by (simp add: count_values_def sum_foldl_count_step)

lemma count_values_lookup:
  "map_of (count_values ks) k = (if k \<in> set ks then Some (count_list ks k) else None)"
proof (cases "k \<in> set ks")
  case True
  then have "k \<in> fst ` set (count_values ks)" by (simp add: count_values_keys)
  then obtain c where c: "map_of (count_values ks) k = Some c"
    by (metis map_of_eq_None_iff not_Some_eq)
  have "dict_get (count_values ks) k 0 = count_list ks k"
    using dict_get_foldl_count_step [of "[]" ks k]
    by (simp add: count_values_def dict_get_def)
  with c True show ?thesis by (simp add: dict_get_def)
next
  case False
  then show ?thesis
    by (simp add: map_of_eq_None_iff count_values_keys)
qed

lemma count_values_mem:
  "(k, c) \<in> set (count_values ks) \<longleftrightarrow> k \<in> set ks \<and> c = count_list ks k"
proof -
  have "(k, c) \<in> set (count_values ks) \<longleftrightarrow> map_of (count_values ks) k = Some c"
    by (rule map_of_eq_Some_iff [symmetric, OF count_values_distinct])
  then show ?thesis by (auto simp: count_values_lookup)
qed

lemma count_values_pos: "(k, c) \<in> set (count_values ks) \<Longrightarrow> 0 < c"
  using count_list_0_iff [of ks k] by (auto simp: count_values_mem)

subsection \<open>int() and number formatting\<close>

lemma py_int_nonneg: "0 \<le> x \<Longrightarrow> py_int x = \<lfloor>x\<rfloor>"
  by (simp add: py_int_def)

lemma digit_val_char_all: "\<forall>d \<in> set [0..<16]. digit_val (digit_char d) = d"
  by code_simp

lemma digit_val_char: "d < 16 \<Longrightarrow> digit_val (digit_char d) = d"
  using digit_val_char_all by simp

lemma read_base_snoc: "read_base b (s @ [c]) = read_base b s * b + digit_val c"
  by (simp add: read_base_def)

lemma read_show_base:
  assumes "2 \<le> b" "b \<le> 16" shows "read_base b (show_base b n) = n"
  using assms
proof (induction b n rule: show_base.induct)
  case (1 b n)
  show ?case
  proof (cases "n < b")
    case True
    with "1.prems" show ?thesis
      by (simp add: show_base.simps [of b n] read_base_def digit_val_char)
  next
    case False
    with "1.prems" have "read_base b (show_base b (n div b)) = n div b"
      by (intro "1.IH") auto
    moreover have "digit_val (digit_char (n mod b)) = n mod b"
      using "1.prems" by (intro digit_val_char) (meson less_le_trans mod_less_divisor
        order_less_le_trans pos2 less_le_trans)
    ultimately show ?thesis
      using False "1.prems"
      by (simp add: show_base.simps [of b n] read_base_snoc)
  qed
qed

lemma length_show_base_16:
  assumes "n < 256" shows "length (show_base 16 n) \<le> 2"
proof (cases "n < 16")
  case True
  then show ?thesis by (simp add: show_base.simps [of 16 n])
next
  case False
  with assms have "n div 16 < 16" by simp
  then have "show_base 16 (n div 16) = [digit_char (n div 16)]"
    by (simp add: show_base.simps [of 16 "n div 16"])
  with False show ?thesis by (simp add: show_base.simps [of 16 n])
qed

lemma read_base_zeros: "read_base b (replicate k (CHR ''0'') @ s) = read_base b s"
proof -
  have "foldl (\<lambda>acc c. acc * b + digit_val c) 0 (replicate k (CHR ''0'')) = 0"
    by (induction k) (simp_all add: digit_val_def)
  then show ?thesis by (simp add: read_base_def)
qed

lemma fmt_02x_length: "0 \<le> i \<Longrightarrow> i < 256 \<Longrightarrow> length (fmt_02x i) = 2"
  using length_show_base_16 [of "nat i"] by (simp add: fmt_02x_def zpad_def)

lemma fmt_02x_read: "0 \<le> i \<Longrightarrow> read_base 16 (fmt_02x i) = nat i"
  by (simp add: fmt_02x_def zpad_def read_base_zeros read_show_base)

lemma find_distinct_key:
  assumes "distinct (map f xs)" "i < length xs"
  shows "find (\<lambda>x. f x = f (xs ! i)) xs = Some (xs ! i)"
proof -
  have "\<forall>j < i. f (xs ! j) \<noteq> f (xs ! i)"
    using assms by (auto simp: distinct_conv_nth)
  with assms(2) show ?thesis by (auto simp: find_Some_iff)
qed

lemma sorted_wrt_less_nth_mono:
  "sorted_wrt (<) (xs :: nat list) \<Longrightarrow> j < length xs \<Longrightarrow> xs ! j < xs ! i \<Longrightarrow> j < i"
proof (rule ccontr)
  assume s: "sorted_wrt (<) xs" and j: "j < length xs" and lt: "xs ! j < xs ! i" and "\<not> j < i"
  then consider "i = j" | "i < j" by linarith
  then show False
  proof cases
    case 1
    with lt show False by simp
  next
    case 2
    from s 2 j have "xs ! i < xs ! j" by (rule sorted_wrt_nth_less)
    with lt show False by simp
  qed
qed

lemma py_format1_prefix:
  "CHR ''{'' \<notin> set pre \<Longrightarrow> py_format1 (pre @ ''{}'') c = pre @ c"
  by (induction pre) auto

lemma count_list_map: "count_list (map f xs) y = length (filter (\<lambda>x. f x = y) xs)"
  by (induction xs) auto

lemma filter_all_iff: "length (filter P xs) = length xs \<longleftrightarrow> (\<forall>x \<in> set xs. P x)"
proof
  assume len: "length (filter P xs) = length xs"
  show "\<forall>x \<in> set xs. P x"
  proof (rule ccontr)
    assume "\<not> (\<forall>x \<in> set xs. P x)"
    then obtain x where "x \<in> set xs" "\<not> P x" by blast
    then have "length (filter P xs) < length xs" by (rule length_filter_less)
    with len show False by simp
  qed
next
  assume "\<forall>x \<in> set xs. P x"
  then show "length (filter P xs) = length xs" by simp
qed

lemma present_count:
  "length (filter (\<lambda>c. c \<noteq> None) (map f xs)) = length (filter (\<lambda>x. f x \<noteq> None) xs)"
  by (induction xs) auto

lemma digit_char_hex: "d < 16 \<Longrightarrow> digit_char d \<in> set hex_digits"
  unfolding digit_char_def hex_digits_def by (rule nth_mem) simp

lemma show_base_hex: "set (show_base 16 n) \<subseteq> set hex_digits"
proof (induction n rule: less_induct)
  case (less n)
  show ?case
  proof (cases "n < 16")
    case True
    then show ?thesis by (simp add: show_base.simps [of 16 n] digit_char_hex)
  next
    case False
    then have "n div 16 < n" by simp
    with less have "set (show_base 16 (n div 16)) \<subseteq> set hex_digits" by blast
    with False show ?thesis by (simp add: show_base.simps [of 16 n] digit_char_hex)
  qed
qed

lemma fmt_02x_hex:
  assumes "0 \<le> i" "i < 256"
  shows "length (fmt_02x i) = 2 \<and> list_all (\<lambda>c. c \<in> set hex_digits) (fmt_02x i)"
proof -
  have "CHR ''0'' \<in> set hex_digits" by (simp add: hex_digits_def)
  then have "set (fmt_02x i) \<subseteq> set hex_digits"
    using assms show_base_hex [of "nat i"] by (auto simp: fmt_02x_def zpad_def)
  then show ?thesis using fmt_02x_length [OF assms] by (auto simp: list_all_iff)
qed

lemma length_filter_mono_pred:
  "(\<And>x. P x \<Longrightarrow> Q x) \<Longrightarrow> length (filter P xs) \<le> length (filter Q xs)"
  by (induction xs) auto

end
