(* ===== verification/Libraries.thy ===== *)
theory Libraries
  imports Prelude
begin

text \<open>
  The third-party operations the repository calls, with the semantics the code relies on.
  None of this is code of the repository: it is the library behaviour the component
  theories are built on, and it is kept as small as the calls need.
  \<^item> pandas: a column is a list of \<open>'a option\<close> (\<open>None\<close> is NaN/NaT) and a Series
    a list of (index label, value) pairs. \<open>value_counts\<close> drops missing values,
    counts each value and orders by count, highest first, ties in order of first
    appearance; \<open>head\<close> is \<open>take\<close>; \<open>sort_index\<close> sorts by label; \<open>idxmax\<close>
    scans left to right and keeps the first maximal entry, and raises
    (\<open>None\<close>) on an empty Series; \<open>mean\<close> and \<open>median\<close> skip missing values and
    are NaN (\<open>None\<close>) when nothing is left.
  \<^item> folium: a map is a record of its centre, zoom, tiles and the layers added to
    it, in the order \<open>add_to\<close> was called.
  \<^item> console and files: the run's observable behaviour is a list of \<open>event\<close>s,
    one per \<open>print\<close> (the values it prints, not their layout) or per map saved.
\<close>

subsection \<open>pandas\<close>

definition dropna_values :: "'a option list \<Rightarrow> 'a list" where
  "dropna_values col = List.map_filter id col"

definition value_counts :: "'a option list \<Rightarrow> ('a \<times> nat) list" where
  "value_counts col = sort_key (\<lambda>kc. - int (snd kc)) (count_values (dropna_values col))"

definition head :: "nat \<Rightarrow> ('k \<times> 'v) list \<Rightarrow> ('k \<times> 'v) list" where
  "head n s = take n s"

definition sort_index :: "('k::linorder \<times> 'v) list \<Rightarrow> ('k \<times> 'v) list" where
  "sort_index s = sort_key fst s"

text \<open>\<open>s / n * 100\<close> on a Series of counts.\<close>

definition series_percent :: "('k \<times> nat) list \<Rightarrow> nat \<Rightarrow> ('k \<times> real) list" where
  "series_percent s n = map (\<lambda>(k, c). (k, real c / real n * 100)) s"

definition series_mean :: "real option list \<Rightarrow> real option" where
  "series_mean col =
     (let xs = dropna_values col
      in if xs = [] then None else Some (sum_list xs / real (length xs)))"

definition series_median :: "real option list \<Rightarrow> real option" where
  "series_median col =
     (let xs = sort (dropna_values col); n = length xs
      in if n = 0 then None
         else if odd n then Some (xs ! (n div 2))
         else Some ((xs ! (n div 2 - 1) + xs ! (n div 2)) / 2))"

fun argmax_scan :: "'l \<times> real \<Rightarrow> ('l \<times> real) list \<Rightarrow> 'l \<times> real" where
  "argmax_scan best [] = best"
| "argmax_scan best (x # xs) = argmax_scan (if snd best < snd x then x else best) xs"

definition idxmax :: "('l \<times> real) list \<Rightarrow> 'l option" where
  "idxmax s = (case s of [] \<Rightarrow> None | x # xs \<Rightarrow> Some (fst (argmax_scan x xs)))"

text \<open>The reference for \<open>idxmax\<close>: an entry no other entry exceeds.\<close>

definition is_max_in :: "('l \<times> real) list \<Rightarrow> 'l \<times> real \<Rightarrow> bool" where
  "is_max_in s y \<longleftrightarrow> (\<forall>z \<in> set s. snd z \<le> snd y)"

subsection \<open>folium\<close>

datatype icon = Icon string string

datatype layer =
    Marker latlng string icon
  | PolyLine "latlng list" nat string real string
  | Polygon "latlng list" string bool string real nat
  | Element string

record fmap =
  location :: latlng
  zoom_start :: nat
  tiles :: string
  children :: "layer list"

definition folium_map :: "latlng \<Rightarrow> nat \<Rightarrow> string \<Rightarrow> fmap" where
  "folium_map loc z t = \<lparr>location = loc, zoom_start = z, tiles = t, children = []\<rparr>"

definition add_to :: "layer \<Rightarrow> fmap \<Rightarrow> fmap" where
  "add_to l m = m\<lparr>children := children m @ [l]\<rparr>"

subsection \<open>Python exceptions and JSON values\<close>

text \<open>
  The exceptions the route analysis can raise, with the message \<open>str(e)\<close> gives.
  JSON values as \<open>json.loads\<close> returns them; an object's later duplicate key wins.
\<close>

datatype exc =
    ValueError string
  | TypeError string
  | KeyError string
  | IndexError string
  | RequestException string
  | HTTPError string
  | JSONDecodeError string
  | DecodeError string

fun exc_str :: "exc \<Rightarrow> string" where
  "exc_str (ValueError m) = m"
| "exc_str (TypeError m) = m"
| "exc_str (KeyError m) = m"
| "exc_str (IndexError m) = m"
| "exc_str (RequestException m) = m"
| "exc_str (HTTPError m) = m"
| "exc_str (JSONDecodeError m) = m"
| "exc_str (DecodeError m) = m"

datatype json =
    JNull
  | JBool bool
  | JInt int
  | JFloat real
  | JStr string
  | JArr "json list"
  | JObj "(string \<times> json) list"

fun py_type_name :: "json \<Rightarrow> string" where
  "py_type_name JNull = ''NoneType''"
| "py_type_name (JBool b) = ''bool''"
| "py_type_name (JInt i) = ''int''"
| "py_type_name (JFloat r) = ''float''"
| "py_type_name (JStr s) = ''str''"
| "py_type_name (JArr xs) = ''list''"
| "py_type_name (JObj kvs) = ''dict''"

text \<open>\<open>v[key]\<close> with a string key.\<close>

fun py_getitem :: "json \<Rightarrow> string \<Rightarrow> exc + json" where
  "py_getitem (JObj kvs) k =
     (case map_of (rev kvs) k of None \<Rightarrow> Inl (KeyError (py_repr_str k)) | Some v \<Rightarrow> Inr v)"
| "py_getitem (JArr xs) k = Inl (TypeError ''list indices must be integers or slices, not str'')"
| "py_getitem (JStr s) k =
     Inl (TypeError (''string indices must be integers, not '' @ py_repr_str ''str''))"
| "py_getitem v k =
     Inl (TypeError (py_repr_str (py_type_name v) @ '' object is not subscriptable''))"

text \<open>\<open>v[0]\<close>.\<close>

fun py_index0 :: "json \<Rightarrow> exc + json" where
  "py_index0 (JArr []) = Inl (IndexError ''list index out of range'')"
| "py_index0 (JArr (x # xs)) = Inr x"
| "py_index0 (JStr []) = Inl (IndexError ''string index out of range'')"
| "py_index0 (JStr (c # cs)) = Inr (JStr [c])"
| "py_index0 (JObj kvs) = Inl (KeyError ''0'')"
| "py_index0 v =
     Inl (TypeError (py_repr_str (py_type_name v) @ '' object is not subscriptable''))"

text \<open>\<open>v / n\<close> for a non-zero int \<open>n\<close> (true division).\<close>

fun py_truediv :: "json \<Rightarrow> int \<Rightarrow> exc + real" where
  "py_truediv (JInt i) n = Inr (real_of_int i / real_of_int n)"
| "py_truediv (JFloat r) n = Inr (r / real_of_int n)"
| "py_truediv (JBool b) n = Inr (of_bool b / real_of_int n)"
| "py_truediv v n =
     Inl (TypeError (''unsupported operand type(s) for /: '' @ py_repr_str (py_type_name v)
                     @ '' and '' @ py_repr_str ''int''))"

subsection \<open>Observable events\<close>

datatype event =
    Text string
  | Value string "real option"
  | Series string "(string \<times> real) list"
  | Saved string fmap

subsection \<open>Lemmas on the pandas operations\<close>

lemma count_list_dropna: "count_list (dropna_values col) k = count_list col (Some k)"
  by (induction col) (auto simp: dropna_values_def split: option.splits)

lemma set_dropna: "set (dropna_values col) = {k. Some k \<in> set col}"
  by (induction col) (auto simp: dropna_values_def split: option.splits)

lemma length_dropna: "length (dropna_values col) = length (filter (\<lambda>c. c \<noteq> None) col)"
  by (induction col) (auto simp: dropna_values_def split: option.splits)

lemma dropna_map_Some [simp]: "dropna_values (map Some xs) = xs"
  by (induction xs) (simp_all add: dropna_values_def)

lemma value_counts_mem:
  "(k, c) \<in> set (value_counts col) \<longleftrightarrow> Some k \<in> set col \<and> c = count_list col (Some k)"
  by (simp add: value_counts_def count_values_mem count_list_dropna set_dropna)

lemma value_counts_keys_distinct: "distinct (map fst (value_counts col))"
proof -
  have "mset (map fst (value_counts col)) = mset (map fst (count_values (dropna_values col)))"
    by (simp add: value_counts_def)
  then show ?thesis
    using count_values_distinct mset_eq_imp_distinct_iff by blast
qed

lemma value_counts_desc: "sorted_wrt (\<lambda>a b. snd b \<le> snd a) (value_counts col)"
proof -
  have "sorted (map (\<lambda>kc. - int (snd kc)) (value_counts col))"
    by (simp add: value_counts_def)
  then show ?thesis
    by (simp add: sorted_map)
qed

lemma sum_list_sort_key:
  "sum_list (map (g :: 'a \<Rightarrow> 'b::comm_monoid_add) (sort_key f xs)) = sum_list (map g xs)"
proof -
  have "mset (map g (sort_key f xs)) = mset (map g xs)" by simp
  then show ?thesis by (metis sum_mset_sum_list)
qed

lemma value_counts_sum:
  "sum_list (map snd (value_counts col)) = length (filter (\<lambda>c. c \<noteq> None) col)"
proof -
  have "sum_list (map snd (value_counts col)) = sum_list (map snd (count_values (dropna_values col)))"
    by (simp add: value_counts_def sum_list_sort_key)
  then show ?thesis by (simp add: count_values_sum length_dropna)
qed

lemma value_counts_pos: "(k, c) \<in> set (value_counts col) \<Longrightarrow> 0 < c"
  by (simp add: value_counts_def count_values_pos)

lemma head_prefix: "length (head n s) \<le> n" "set (head n s) \<subseteq> set s"
  by (simp_all add: head_def set_take_subset)

lemma sorted_wrt_head: "sorted_wrt R s \<Longrightarrow> sorted_wrt R (head n s)"
  by (simp add: head_def sorted_wrt_take)

lemma sum_series_percent:
  "sum_list (map snd (series_percent s n)) = real (sum_list (map snd s)) / real n * 100"
proof (induction s)
  case Nil
  then show ?case by (simp add: series_percent_def)
next
  case (Cons p s)
  obtain k c where p: "p = (k, c)" by (cases p)
  have "real c / real n * 100 + real (sum_list (map snd s)) / real n * 100
      = real (c + sum_list (map snd s)) / real n * 100"
    by (simp add: add_divide_distrib distrib_right)
  with Cons.IH p show ?case by (simp add: series_percent_def)
qed

lemma is_max_in_Cons: "is_max_in (b # s) y \<longleftrightarrow> snd b \<le> snd y \<and> is_max_in s y"
  by (simp add: is_max_in_def)

lemma is_max_in_exists: "s \<noteq> [] \<Longrightarrow> \<exists>y \<in> set s. is_max_in s y"
proof (induction s)
  case Nil
  then show ?case by simp
next
  case (Cons x s)
  show ?case
  proof (cases "s = []")
    case True
    then show ?thesis by (simp add: is_max_in_def)
  next
    case False
    with Cons.IH obtain y where y: "y \<in> set s" "is_max_in s y" by blast
    show ?thesis
    proof (cases "snd x \<le> snd y")
      case True
      with y show ?thesis by (auto simp: is_max_in_Cons)
    next
      case False
      with y have "is_max_in (x # s) x" by (auto simp: is_max_in_def)
      then show ?thesis by simp
    qed
  qed
qed

lemma argmax_scan_find:
  "argmax_scan b xs = the (find (is_max_in (b # xs)) (b # xs))"
proof (induction xs arbitrary: b)
  case Nil
  then show ?case by (simp add: is_max_in_def)
next
  case (Cons x xs)
  let ?L = "is_max_in (b # x # xs)"
  show ?case
  proof (cases "snd b < snd x")
    case True
    have eq: "find ?L (x # xs) = find (is_max_in (x # xs)) (x # xs)"
    proof (rule find_cong)
      fix y assume "y \<in> set (x # xs)"
      show "?L y = is_max_in (x # xs) y"
        using True by (auto simp: is_max_in_Cons)
    qed simp
    have "\<not> ?L b" using True by (simp add: is_max_in_Cons)
    then have skip: "find ?L (b # x # xs) = find ?L (x # xs)" by simp
    have "argmax_scan b (x # xs) = argmax_scan x xs" using True by simp
    also have "\<dots> = the (find (is_max_in (x # xs)) (x # xs))" by (rule Cons.IH)
    also have "\<dots> = the (find ?L (b # x # xs))" by (simp only: eq skip)
    finally show ?thesis .
  next
    case False
    then have bx: "snd x \<le> snd b" by simp
    let ?B = "is_max_in (b # xs)"
    have eq: "find ?L xs = find ?B xs"
    proof (rule find_cong)
      fix y assume "y \<in> set xs"
      show "?L y = ?B y"
        using bx by (auto simp: is_max_in_Cons)
    qed simp
    have same_b: "?L b = ?B b" using bx by (simp add: is_max_in_Cons)
    have IH: "argmax_scan b (x # xs) = the (find ?B (b # xs))"
      using False Cons.IH [of b] by simp
    show ?thesis
    proof (cases "?B b")
      case True
      with IH same_b show ?thesis by simp
    next
      case nb: False
      have nx: "\<not> ?L x" using nb bx by (force simp: is_max_in_def)
      have "the (find ?B (b # xs)) = the (find ?B xs)" using nb by simp
      also have "\<dots> = the (find ?L xs)" by (simp only: eq)
      also have "\<dots> = the (find ?L (b # x # xs))" using nb same_b nx by simp
      finally show ?thesis using IH by simp
    qed
  qed
qed

lemma idxmax_find: "idxmax s = map_option fst (find (is_max_in s) s)"
proof (cases s)
  case Nil
  then show ?thesis by (simp add: idxmax_def)
next
  case (Cons x xs)
  then obtain y where "find (is_max_in s) s = Some y"
    using is_max_in_exists [of s] by (metis find_None_iff list.distinct(1) not_Some_eq)
  then show ?thesis using Cons by (auto simp: idxmax_def argmax_scan_find)
qed

lemma idxmax_first_max:
  assumes "idxmax s = Some l"
  shows "\<exists>i < length s. fst (s ! i) = l \<and> (\<forall>j < length s. snd (s ! j) \<le> snd (s ! i)) \<and>
           (\<forall>j < i. snd (s ! j) < snd (s ! i))"
proof -
  from assms obtain y where y: "find (is_max_in s) s = Some y" and l: "l = fst y"
    by (auto simp: idxmax_find)
  then obtain i where i: "i < length s" "is_max_in s (s ! i)" "y = s ! i"
      and before: "\<forall>j < i. \<not> is_max_in s (s ! j)"
    by (auto simp: find_Some_iff)
  have le: "\<forall>j < length s. snd (s ! j) \<le> snd (s ! i)"
    using i(2) by (auto simp: is_max_in_def)
  have "snd (s ! j) < snd (s ! i)" if "j < i" for j
  proof -
    have "snd (s ! j) \<noteq> snd (s ! i)"
    proof
      assume "snd (s ! j) = snd (s ! i)"
      then have "is_max_in s (s ! j)" using i(2) by (simp add: is_max_in_def)
      with before that show False by blast
    qed
    moreover have "snd (s ! j) \<le> snd (s ! i)" using le that i(1) by simp
    ultimately show ?thesis by simp
  qed
  with i l le show ?thesis by blast
qed

lemma value_counts_head_top:
  assumes kc: "(k, c) \<in> set (head n (value_counts col))"
    and k': "k' \<notin> fst ` set (head n (value_counts col))"
  shows "count_list col (Some k') \<le> c"
proof (cases "Some k' \<in> set col")
  case False
  then show ?thesis by (simp add: count_list_0_iff)
next
  case True
  let ?s = "value_counts col"
  have "(k', count_list col (Some k')) \<in> set ?s" using True by (simp add: value_counts_mem)
  then obtain j where j: "j < length ?s" "?s ! j = (k', count_list col (Some k'))"
    by (auto simp: in_set_conv_nth)
  from kc obtain i where i: "i < length (take n ?s)" "take n ?s ! i = (k, c)"
    by (auto simp: head_def in_set_conv_nth)
  have "n \<le> j"
  proof (rule ccontr)
    assume "\<not> n \<le> j"
    then have "?s ! j \<in> set (take n ?s)" using j(1) by (auto simp: in_set_conv_nth)
    then have "k' \<in> fst ` set (head n ?s)" using j(2) by (force simp: head_def)
    with k' show False by contradiction
  qed
  moreover have "i < n" "?s ! i = (k, c)" using i by simp_all
  ultimately have "i < j" by simp
  with value_counts_desc [of col] j(1) have "snd (?s ! j) \<le> snd (?s ! i)"
    by (simp add: sorted_wrt_iff_nth_less)
  with j(2) \<open>?s ! i = (k, c)\<close> show ?thesis by simp
qed

lemma sort_index_keys:
  assumes "distinct (map fst s)"
  shows "sorted_wrt (<) (map fst (sort_index s))"
proof -
  have "sorted (map fst (sort_index s))" by (simp add: sort_index_def)
  moreover have "mset (map fst (sort_index s)) = mset (map fst s)" by (simp add: sort_index_def)
  then have "distinct (map fst (sort_index s))"
    using assms by (rule mset_eq_imp_distinct_iff [THEN iffD2])
  ultimately show ?thesis by (simp add: strict_sorted_iff)
qed

lemma set_sort_index [simp]: "set (sort_index s) = set s"
  by (simp add: sort_index_def)

lemma percent_value_counts:
  "sum_list (map snd (series_percent (value_counts col) n)) =
     real (length (filter (\<lambda>c. c \<noteq> None) col)) / real n * 100"
  by (simp add: sum_series_percent value_counts_sum)

text \<open>What \<open>value_counts().head(n)\<close> prints: the \<open>n\<close> most frequent present values.\<close>

lemma top_values:
  "length (head n (value_counts col)) \<le> n \<and>
   sorted_wrt (\<lambda>a b. snd b \<le> snd a) (head n (value_counts col)) \<and>
   distinct (map fst (head n (value_counts col))) \<and>
   (\<forall>(k, c) \<in> set (head n (value_counts col)). 0 < c \<and> c = count_list col (Some k) \<and>
      (\<forall>k'. k' \<notin> fst ` set (head n (value_counts col)) \<longrightarrow> count_list col (Some k') \<le> c))"
proof -
  have sub: "set (head n (value_counts col)) \<subseteq> set (value_counts col)" by (rule head_prefix(2))
  have d: "distinct (map fst (head n (value_counts col)))"
    using value_counts_keys_distinct [of col] by (simp add: head_def take_map [symmetric] distinct_take)
  have "\<forall>(k, c) \<in> set (head n (value_counts col)). 0 < c \<and> c = count_list col (Some k) \<and>
      (\<forall>k'. k' \<notin> fst ` set (head n (value_counts col)) \<longrightarrow> count_list col (Some k') \<le> c)"
  proof (clarify)
    fix k c assume kc: "(k, c) \<in> set (head n (value_counts col))"
    then have "(k, c) \<in> set (value_counts col)" using sub by blast
    then have "0 < c \<and> c = count_list col (Some k)"
      using value_counts_pos [of k c col] by (simp add: value_counts_mem)
    moreover have "\<forall>k'. k' \<notin> fst ` set (head n (value_counts col)) \<longrightarrow> count_list col (Some k') \<le> c"
      using value_counts_head_top [OF kc] by blast
    ultimately show "0 < c \<and> c = count_list col (Some k) \<and>
      (\<forall>k'. k' \<notin> fst ` set (head n (value_counts col)) \<longrightarrow> count_list col (Some k') \<le> c)" by blast
  qed
  with d show ?thesis
    by (simp add: head_prefix(1) sorted_wrt_head value_counts_desc)
qed

lemma value_counts_length: "length (value_counts col) = card {k. Some k \<in> set col}"
proof -
  have "k \<in> fst ` set (value_counts col) \<longleftrightarrow> Some k \<in> set col" for k
  proof -
    have "k \<in> fst ` set (value_counts col) \<longleftrightarrow> (\<exists>c. (k, c) \<in> set (value_counts col))" by force
    then show ?thesis by (simp add: value_counts_mem)
  qed
  then have "fst ` set (value_counts col) = {k. Some k \<in> set col}" by blast
  moreover have "length (value_counts col) = card (fst ` set (value_counts col))"
    using distinct_card [OF value_counts_keys_distinct [of col]] by simp
  ultimately show ?thesis by simp
qed

lemma sorted_count_le_nth:
  assumes "sorted xs" "i < length xs"
  shows "Suc i \<le> length (filter (\<lambda>x. x \<le> xs ! i) xs)"
proof -
  have "\<forall>x \<in> set (take (Suc i) xs). x \<le> xs ! i"
    using assms by (auto simp: in_set_conv_nth sorted_nth_mono)
  then have "length (filter (\<lambda>x. x \<le> xs ! i) (take (Suc i) xs)) = Suc i"
    using assms(2) by simp
  moreover have "length (filter (\<lambda>x. x \<le> xs ! i) (take (Suc i) xs)) \<le> length (filter (\<lambda>x. x \<le> xs ! i) xs)"
    using append_take_drop_id [of "Suc i" xs] by (metis filter_append length_append le_add1)
  ultimately show ?thesis by simp
qed

lemma sorted_count_ge_nth:
  assumes "sorted xs" "i < length xs"
  shows "length xs - i \<le> length (filter (\<lambda>x. xs ! i \<le> x) xs)"
proof -
  have "\<forall>x \<in> set (drop i xs). xs ! i \<le> x"
    using assms by (auto simp: in_set_conv_nth sorted_nth_mono)
  then have "length (filter (\<lambda>x. xs ! i \<le> x) (drop i xs)) = length xs - i"
    by simp
  moreover have "length (filter (\<lambda>x. xs ! i \<le> x) (drop i xs)) \<le> length (filter (\<lambda>x. xs ! i \<le> x) xs)"
    using append_take_drop_id [of i xs] by (metis filter_append length_append le_add2)
  ultimately show ?thesis by simp
qed

lemma half_count_odd:
  assumes "Suc (n div 2) \<le> a" "n - n div 2 \<le> b"
  shows "n \<le> 2 * a \<and> n \<le> 2 * b"
proof -
  have "n = 2 * (n div 2) + n mod 2" by simp
  moreover have "n mod 2 < 2" by simp
  ultimately show ?thesis using assms by linarith
qed

lemma half_count_even:
  assumes "even n" "n \<noteq> 0" "Suc (n div 2 - 1) \<le> a" "n - n div 2 \<le> b"
  shows "n \<le> 2 * a \<and> n \<le> 2 * b"
proof -
  have "n = 2 * (n div 2)" using assms(1) by simp
  moreover have "0 < n div 2" using assms(1,2) by (auto elim: evenE)
  ultimately show ?thesis using assms(3,4) by linarith
qed

lemma series_median_halves:
  assumes "series_median col = Some m"
  shows "length (dropna_values col) \<le> 2 * length (filter (\<lambda>x. x \<le> m) (dropna_values col)) \<and>
         length (dropna_values col) \<le> 2 * length (filter (\<lambda>x. m \<le> x) (dropna_values col))"
proof -
  let ?xs = "dropna_values col"
  let ?ys = "sort ?xs"
  let ?n = "length ?ys"
  have sm: "(if ?n = 0 then None else if odd ?n then Some (?ys ! (?n div 2))
            else Some ((?ys ! (?n div 2 - 1) + ?ys ! (?n div 2)) / 2)) = Some m"
    using assms unfolding series_median_def Let_def .
  then have n: "?n \<noteq> 0" by (cases "?n = 0") simp_all
  have s: "sorted ?ys" by simp
  have cnt: "length (filter P ?ys) = length (filter P ?xs)" for P
    by (simp add: filter_sort)
  have i1: "?n div 2 < ?n" "?n div 2 - 1 < ?n" using n by (simp, linarith)
  have le: "Suc (?n div 2) \<le> length (filter (\<lambda>x. x \<le> ?ys ! (?n div 2)) ?ys)"
    using sorted_count_le_nth [OF s i1(1)] .
  have ge: "?n - ?n div 2 \<le> length (filter (\<lambda>x. ?ys ! (?n div 2) \<le> x) ?ys)"
    using sorted_count_ge_nth [OF s i1(1)] .
  show ?thesis
  proof (cases "odd ?n")
    case True
    then have m: "m = ?ys ! (?n div 2)" using sm n by simp
    have a: "Suc (?n div 2) \<le> length (filter (\<lambda>x. x \<le> m) ?xs)" using le unfolding m cnt .
    have b: "?n - ?n div 2 \<le> length (filter (\<lambda>x. m \<le> x) ?xs)" using ge unfolding m cnt .
    from half_count_odd [OF a b] show ?thesis by simp
  next
    case False
    obtain p q where p: "p = ?ys ! (?n div 2 - 1)" and q: "q = ?ys ! (?n div 2)" by simp
    have m: "m = (p + q) / 2" using sm n False by (simp add: p q)
    have pq: "p \<le> q" unfolding p q using s i1 by (simp add: sorted_nth_mono)
    have m2: "2 * m = p + q" using m by simp
    have le1: "Suc (?n div 2 - 1) \<le> length (filter (\<lambda>x. x \<le> p) ?ys)"
      unfolding p using sorted_count_le_nth [OF s i1(2)] .
    have "length (filter (\<lambda>x. x \<le> p) ?ys) \<le> length (filter (\<lambda>x. x \<le> m) ?ys)"
    proof (rule length_filter_mono_pred)
      fix x :: real assume "x \<le> p" then show "x \<le> m" using pq m2 by linarith
    qed
    moreover have "length (filter (\<lambda>x. q \<le> x) ?ys) \<le> length (filter (\<lambda>x. m \<le> x) ?ys)"
    proof (rule length_filter_mono_pred)
      fix x :: real assume "q \<le> x" then show "m \<le> x" using pq m2 by linarith
    qed
    moreover have "?n - ?n div 2 \<le> length (filter (\<lambda>x. q \<le> x) ?ys)" using ge unfolding q .
    ultimately have a: "Suc (?n div 2 - 1) \<le> length (filter (\<lambda>x. x \<le> m) ?xs)"
      and b: "?n - ?n div 2 \<le> length (filter (\<lambda>x. m \<le> x) ?xs)"
      using le1 unfolding cnt by linarith+
    from half_count_even [OF _ n a b] False show ?thesis by simp
  qed
qed

lemma top_values_length: "length (head n (value_counts col)) = min n (card {k. Some k \<in> set col})"
  by (simp add: head_def value_counts_length)

end
