(* ===== verification/Trips.thy ===== *)
theory Trips
  imports Libraries
begin

text \<open>
  The trip table and \<open>src/src/data_loader.py\<close> (class \<open>CitibikeDataLoader\<close>).
  A row of the trip file is the record \<open>'ts row\<close>, one field per column the code
  reads, with the timestamp columns of type \<open>'ts\<close>: \<open>string\<close> as read
  (\<open>csv_row\<close>), \<open>timestamp\<close> once converted (\<open>trip\<close>, which adds the derived column
  \<open>trip_duration_mins\<close>). A missing cell is \<open>None\<close>. The loaded table is a
  \<open>frame\<close>: the rows, in file order (their index labels are their positions), and
  the column \<open>station_pair\<close>, absent (\<open>None\<close>) until the spatial analyzer adds it
  to the shared frame.

  \<open>pd.read_csv\<close> and the parsing of one timestamp by \<open>pd.to_datetime\<close> are library
  calls, parameters of \<open>load\<close>: \<open>read_csv path\<close> gives the rows or a
  \<open>read_error\<close>, \<open>parse s\<close> a timestamp or the message of the exception.
  \<open>to_datetime\<close> applies \<open>parse\<close> to a whole column as pandas does
  (\<open>errors='raise'\<close>): missing cells become NaT, the first cell that does not parse
  raises.
\<close>

record 'ts row =
  ride_id :: string
  rideable_type :: "string option"
  started_at :: "'ts option"
  ended_at :: "'ts option"
  start_station_name :: "string option"
  start_station_id :: "string option"
  end_station_name :: "string option"
  end_station_id :: "string option"
  start_lat :: "real option"
  start_lng :: "real option"
  end_lat :: "real option"
  end_lng :: "real option"
  member_casual :: "string option"

type_synonym csv_row = "string row"

record trip = "timestamp row" +
  trip_duration_mins :: "real option"

record frame =
  trips :: "trip list"
  station_pair :: "string option list option"

datatype read_error = ReadNotFound | ReadFailed string

datatype load_error = FileNotFound string | ProcessingError string

type_synonym csv_reader = "string \<Rightarrow> read_error + csv_row list"

type_synonym ts_parser = "string \<Rightarrow> string + timestamp"

fun to_datetime :: "ts_parser \<Rightarrow> string option list \<Rightarrow> string + timestamp option list" where
  "to_datetime parse [] = Inr []"
| "to_datetime parse (None # cs) =
     (case to_datetime parse cs of Inl e \<Rightarrow> Inl e | Inr ts \<Rightarrow> Inr (None # ts))"
| "to_datetime parse (Some s # cs) =
     (case parse s of
        Inl e \<Rightarrow> Inl e
      | Inr t \<Rightarrow> (case to_datetime parse cs of Inl e \<Rightarrow> Inl e | Inr ts \<Rightarrow> Inr (Some t # ts)))"

text \<open>\<open>pd.to_datetime\<close> on one present cell that parses.\<close>

definition ts_cell :: "ts_parser \<Rightarrow> string option \<Rightarrow> timestamp option" where
  "ts_cell parse c = map_option (\<lambda>s. projr (parse s)) c"

text \<open>\<open>(ended_at - started_at).dt.total_seconds() / 60\<close>: NaT on either side gives NaN.\<close>

definition duration_mins :: "timestamp option \<Rightarrow> timestamp option \<Rightarrow> real option" where
  "duration_mins s e =
     (case (s, e) of
        (Some a, Some b) \<Rightarrow> Some (real_of_int (b - a) / 1000000000 / 60)
      | _ \<Rightarrow> None)"

definition mk_trip :: "csv_row \<Rightarrow> timestamp option \<Rightarrow> timestamp option \<Rightarrow> trip" where
  "mk_trip r s e =
     \<lparr>ride_id = ride_id r, rideable_type = rideable_type r,
      started_at = s, ended_at = e,
      start_station_name = start_station_name r, start_station_id = start_station_id r,
      end_station_name = end_station_name r, end_station_id = end_station_id r,
      start_lat = start_lat r, start_lng = start_lng r,
      end_lat = end_lat r, end_lng = end_lng r,
      member_casual = member_casual r,
      trip_duration_mins = duration_mins s e\<rparr>"

definition preprocess_data :: "ts_parser \<Rightarrow> csv_row list \<Rightarrow> string + trip list" where
  "preprocess_data parse rows =
     (case to_datetime parse (map started_at rows) of
        Inl e \<Rightarrow> Inl e
      | Inr starts \<Rightarrow>
          (case to_datetime parse (map ended_at rows) of
             Inl e \<Rightarrow> Inl e
           | Inr ends \<Rightarrow>
               Inr (map (\<lambda>((r, s), e). mk_trip r s e) (zip (zip rows starts) ends))))"

definition load :: "csv_reader \<Rightarrow> ts_parser \<Rightarrow> string \<Rightarrow> load_error + frame" where
  "load read_csv parse file_path =
     (case read_csv file_path of
        Inl ReadNotFound \<Rightarrow> Inl (FileNotFound (''Data file not found: '' @ file_path))
      | Inl (ReadFailed msg) \<Rightarrow> Inl (ProcessingError (''Error processing file: '' @ msg))
      | Inr df \<Rightarrow>
          (case preprocess_data parse df of
             Inl msg \<Rightarrow> Inl (ProcessingError (''Error processing file: '' @ msg))
           | Inr ts \<Rightarrow> Inr \<lparr>trips = ts, station_pair = None\<rparr>))"

text \<open>\<open>str(e)\<close> of the two exceptions \<open>load\<close> raises.\<close>

fun load_error_msg :: "load_error \<Rightarrow> string" where
  "load_error_msg (FileNotFound m) = m"
| "load_error_msg (ProcessingError m) = m"

text \<open>A column is parsed without error when every present cell parses.\<close>

definition parses :: "ts_parser \<Rightarrow> string option list \<Rightarrow> bool" where
  "parses parse cs \<longleftrightarrow> list_all (\<lambda>c. case c of None \<Rightarrow> True | Some s \<Rightarrow> \<not> isl (parse s)) cs"

text \<open>
  The directory the maps are written to, \<open>Path(__file__).parent.parent.parent / 'output'\<close>
  in both \<open>route_analyzer.py\<close> and \<open>h3_visualizer.py\<close>: \<open>output\<close> under the
  repository's root (the absolute prefix is not modelled).
\<close>

definition output_dir :: string where
  "output_dir = ''output''"

text \<open>A one-row trip file, for the witnesses.\<close>

definition example_row :: csv_row where
  "example_row =
     \<lparr>ride_id = ''A1B2C3'', rideable_type = Some ''classic_bike'',
      started_at = Some ''2025-01-01 08:00:00'', ended_at = Some ''2025-01-01 08:10:00'',
      start_station_name = Some ''Grove St PATH'', start_station_id = Some ''JC005'',
      end_station_name = Some ''Hamilton Park'', end_station_id = Some ''JC009'',
      start_lat = Some 40.7197, start_lng = Some (-74.0431),
      end_lat = Some 40.7277, end_lng = Some (-74.0440),
      member_casual = Some ''member''\<rparr>"

definition example_parse :: ts_parser where
  "example_parse s =
     (if s = ''2025-01-01 08:00:00'' then Inr 1735718400000000000
      else if s = ''2025-01-01 08:10:00'' then Inr 1735719000000000000
      else Inl (''Unknown datetime string format, unable to parse: '' @ s))"

definition example_trip :: trip where
  "example_trip = mk_trip example_row (Some 1735718400000000000) (Some 1735719000000000000)"

text \<open>The columns of a trip other than the two converted ones and the derived one.\<close>

definition untimed :: "('ts, 'z) row_scheme \<Rightarrow> unit row" where
  "untimed r =
     \<lparr>ride_id = ride_id r, rideable_type = rideable_type r,
      started_at = None, ended_at = None,
      start_station_name = start_station_name r, start_station_id = start_station_id r,
      end_station_name = end_station_name r, end_station_id = end_station_id r,
      start_lat = start_lat r, start_lng = start_lng r,
      end_lat = end_lat r, end_lng = end_lng r,
      member_casual = member_casual r\<rparr>"

subsection \<open>Lemmas\<close>

lemma to_datetime_parses:
  "parses parse cs \<Longrightarrow> to_datetime parse cs = Inr (map (ts_cell parse) cs)"
  by (induction parse cs rule: to_datetime.induct) (auto simp: parses_def ts_cell_def split: sum.splits)

lemma to_datetime_InrD:
  "to_datetime parse cs = Inr ts \<Longrightarrow> parses parse cs"
  by (induction parse cs arbitrary: ts rule: to_datetime.induct)
     (auto simp: parses_def split: sum.splits)

lemma to_datetime_Inr_iff:
  "to_datetime parse cs = Inr ts \<longleftrightarrow>
     parses parse cs \<and> ts = map (ts_cell parse) cs"
  using to_datetime_parses to_datetime_InrD by fastforce

lemma to_datetime_Inl: "\<not> parses parse cs \<Longrightarrow> \<exists>e. to_datetime parse cs = Inl e"
  using to_datetime_Inr_iff by (metis sumE)

lemma preprocess_data_Inr_iff:
  "preprocess_data parse rows = Inr ts \<longleftrightarrow>
     parses parse (map started_at rows) \<and> parses parse (map ended_at rows) \<and>
     ts = map (\<lambda>r. mk_trip r (ts_cell parse (started_at r))
                              (ts_cell parse (ended_at r))) rows"
    (is "?l \<longleftrightarrow> ?p1 \<and> ?p2 \<and> ts = ?ts")
proof
  assume ?l
  then show "?p1 \<and> ?p2 \<and> ts = ?ts"
    by (auto simp: preprocess_data_def to_datetime_Inr_iff zip_map_self zip_map1
        split: sum.splits)
next
  assume "?p1 \<and> ?p2 \<and> ts = ?ts"
  then show ?l
    by (simp add: preprocess_data_def to_datetime_parses zip_map_self zip_map1 comp_def)
qed


text \<open>
  Claim C1: after a successful load, the derived column \<open>trip_duration_mins\<close> of every
  row is the difference of its two timestamps in minutes when both are present, and
  missing (NaN) when either is missing.
\<close>

theorem load_duration:
  assumes "load read_csv parse path = Inr df" and "t \<in> set (trips df)"
  shows "trip_duration_mins t =
           (case (started_at t, ended_at t) of
              (Some a, Some b) \<Rightarrow> Some (real_of_int (b - a) / 60000000000)
            | _ \<Rightarrow> None)"
proof -
  from assms(1) obtain rows ts where "read_csv path = Inr rows"
    and "preprocess_data parse rows = Inr ts" and "df = \<lparr>trips = ts, station_pair = None\<rparr>"
    by (auto simp: load_def split: sum.splits read_error.splits)
  with assms(2) obtain r where "t = mk_trip r (ts_cell parse (started_at r)) (ts_cell parse (ended_at r))"
    by (auto simp: preprocess_data_Inr_iff)
  then show ?thesis
    by (simp add: mk_trip_def duration_mins_def split: option.splits)
qed

theorem load_duration_witness:
  "load (\<lambda>_. Inr [example_row]) example_parse ''data/JC-202501-citibike-tripdata.csv''
     = Inr \<lparr>trips = [mk_trip example_row (Some 1735718400000000000) (Some 1735719000000000000)],
            station_pair = None\<rparr>
   \<and> trip_duration_mins (mk_trip example_row (Some 1735718400000000000) (Some 1735719000000000000))
     = Some 10"
proof -
  have ld: "load (\<lambda>_. Inr [example_row]) example_parse ''data/JC-202501-citibike-tripdata.csv''
     = Inr \<lparr>trips = [mk_trip example_row (Some 1735718400000000000) (Some 1735719000000000000)],
            station_pair = None\<rparr>"
    by (simp add: load_def preprocess_data_def example_row_def example_parse_def)
  show ?thesis
    using ld load_duration [OF ld, of "mk_trip example_row (Some 1735718400000000000) (Some 1735719000000000000)"]
    by (simp add: mk_trip_def)
qed

text \<open>
  Claim C16: when the trip file does not exist, \<open>load\<close> raises \<open>FileNotFoundError\<close>
  with the message \<open>Data file not found: <path>\<close>.
\<close>

theorem load_file_not_found:
  "read_csv path = Inl ReadNotFound \<Longrightarrow>
     load read_csv parse path = Inl (FileNotFound (''Data file not found: '' @ path))"
  by (simp add: load_def)

theorem load_file_not_found_witness:
  "load (\<lambda>_. Inl ReadNotFound) example_parse ''missing.csv''
     = Inl (FileNotFound ''Data file not found: missing.csv'')"
  using load_file_not_found [of "\<lambda>_. Inl ReadNotFound" "''missing.csv''" example_parse] by simp

text \<open>
  Claim C17: any other failure of reading the file, and any present timestamp cell of
  \<open>started_at\<close> or \<open>ended_at\<close> that does not parse, makes \<open>load\<close> raise the generic
  exception, whose message starts with \<open>Error processing file: \<close>; nothing is loaded.
\<close>

theorem load_processing_error:
  assumes "(\<exists>msg. read_csv path = Inl (ReadFailed msg)) \<or>
           (\<exists>rows. read_csv path = Inr rows \<and>
              (\<not> parses parse (map started_at rows) \<or> \<not> parses parse (map ended_at rows)))"
  shows "\<exists>msg. load read_csv parse path = Inl (ProcessingError (''Error processing file: '' @ msg))"
  using assms
proof
  assume "\<exists>msg. read_csv path = Inl (ReadFailed msg)"
  then show ?thesis by (auto simp: load_def)
next
  assume "\<exists>rows. read_csv path = Inr rows \<and>
    (\<not> parses parse (map started_at rows) \<or> \<not> parses parse (map ended_at rows))"
  then obtain rows where r: "read_csv path = Inr rows"
    and bad: "\<not> parses parse (map started_at rows) \<or> \<not> parses parse (map ended_at rows)"
    by blast
  from bad obtain e where "preprocess_data parse rows = Inl e"
    using preprocess_data_Inr_iff [of parse rows] by (cases "preprocess_data parse rows") auto
  with r show ?thesis by (simp add: load_def)
qed

theorem load_processing_error_witness:
  "\<exists>msg. load (\<lambda>_. Inr [example_row\<lparr>ended_at := Some ''31/01/2025 25:61''\<rparr>]) example_parse ''d.csv''
     = Inl (ProcessingError (''Error processing file: '' @ msg))"
proof (rule load_processing_error)
  have "\<not> parses example_parse (map ended_at [example_row\<lparr>ended_at := Some ''31/01/2025 25:61''\<rparr>])"
    by (simp add: parses_def example_parse_def)
  then show "(\<exists>msg. (\<lambda>_. Inr [example_row\<lparr>ended_at := Some ''31/01/2025 25:61''\<rparr>]) ''d.csv'' = Inl (ReadFailed msg)) \<or>
    (\<exists>rows. (\<lambda>_. Inr [example_row\<lparr>ended_at := Some ''31/01/2025 25:61''\<rparr>]) ''d.csv'' = Inr rows \<and>
       (\<not> parses example_parse (map started_at rows) \<or> \<not> parses example_parse (map ended_at rows)))"
    by auto
qed

text \<open>
  Claim C32: a successful load keeps every row of the file, in file order, with all its
  columns other than the two converted timestamps unchanged.
\<close>

theorem load_keeps_rows:
  assumes "read_csv path = Inr rows" and "load read_csv parse path = Inr df"
  shows "map untimed (trips df) = map untimed rows"
proof -
  from assms obtain ts where "preprocess_data parse rows = Inr ts" and "trips df = ts"
    by (auto simp: load_def split: sum.splits)
  then show ?thesis by (simp add: preprocess_data_Inr_iff untimed_def mk_trip_def)
qed

theorem load_keeps_rows_witness:
  "map untimed (trips \<lparr>trips = [mk_trip example_row (Some 1735718400000000000) (Some 1735719000000000000)],
            station_pair = None\<rparr>) = map untimed [example_row]"
proof (rule load_keeps_rows)
  show "(\<lambda>_. Inr [example_row]) ''d.csv'' = Inr [example_row]" by simp
  show "load (\<lambda>_. Inr [example_row]) example_parse ''d.csv'' =
    Inr \<lparr>trips = [mk_trip example_row (Some 1735718400000000000) (Some 1735719000000000000)],
            station_pair = None\<rparr>"
    by (simp add: load_def preprocess_data_def example_row_def example_parse_def)
qed

end
