(* ===== verification/Route.thy ===== *)
theory Route
  imports Trips
begin

text \<open>
  \<open>src/src/analyzers/route_analyzer.py\<close>, class \<open>RouteAnalyzer\<close>. The object's
  state is \<open>route_analyzer\<close> (the shared frame and the OSRM URL template). The
  libraries it calls are the parameter \<open>route_env\<close>: geopy's geodesic distance in
  kilometres (an exception for an invalid point), \<open>requests.get\<close>, \<open>response.json()\<close>,
  \<open>polyline.decode\<close>, \<open>str()\<close> of a float (for the URL) and the format spec
  \<open>.2f\<close> (for the popup); \<open>response.json()\<close> parses the response's body.

  \<open>valid_trips = df.dropna(subset=[...])\<close> is \<open>dropna_coords\<close>: the rows with all four
  coordinates, with their index labels; as the four columns hold no NaN there, a row of
  \<open>valid_trips\<close> is a \<open>vrow\<close> with the coordinates as reals. The \<open>apply\<close> that adds
  \<open>trip_distance_km\<close> is \<open>distance_column\<close>; on an empty frame pandas returns an empty
  DataFrame, whose assignment to the single column raises \<open>ValueError\<close>. The selection
  is \<open>idxmax\<close> then \<open>.loc\<close> (\<open>select_longest\<close>). \<open>_get_osrm_route\<close> is
  \<open>get_osrm_route\<close>: the body of its \<open>try\<close> is \<open>osrm_request\<close>, its handler prints the
  error and builds the straight-line route, calling geodesic again outside any \<open>try\<close>.
  \<open>analyze\<close> returns the events it printed or saved and either the exception it
  raised or \<open>()\<close>.
\<close>

record http_response =
  status_code :: nat
  reason :: string
  url :: string
  body :: string

record route_env =
  geodesic_km :: "latlng \<Rightarrow> latlng \<Rightarrow> exc + real"
  http_get :: "string \<Rightarrow> exc + http_response"
  json_loads :: "string \<Rightarrow> exc + json"
  polyline_decode :: "json \<Rightarrow> exc + latlng list"
  float_str :: "real \<Rightarrow> string"
  fmt_2f :: "real \<Rightarrow> string"

record route_analyzer =
  rdf :: frame
  osrm_url :: string

record route_result =
  geometry :: "latlng list"
  distance :: real
  duration :: json

record vrow =
  vlabel :: nat
  vtrip :: trip
  vstart_lat :: real
  vstart_lng :: real
  vend_lat :: real
  vend_lng :: real

definition RouteAnalyzer :: "frame \<Rightarrow> route_analyzer" where
  "RouteAnalyzer df =
     \<lparr>rdf = df, osrm_url = ''http://router.project-osrm.org/route/v1/cycling/{}''\<rparr>"

definition valid_row :: "nat \<times> trip \<Rightarrow> vrow option" where
  "valid_row ir =
     (case ir of (i, r) \<Rightarrow>
        (case (start_lat r, start_lng r, end_lat r, end_lng r) of
           (Some a, Some b, Some c, Some d) \<Rightarrow>
             Some \<lparr>vlabel = i, vtrip = r, vstart_lat = a, vstart_lng = b, vend_lat = c, vend_lng = d\<rparr>
         | _ \<Rightarrow> None))"

definition dropna_coords :: "trip list \<Rightarrow> vrow list" where
  "dropna_coords rows = List.map_filter valid_row (enumerate 0 rows)"

fun distance_column :: "route_env \<Rightarrow> vrow list \<Rightarrow> exc + (vrow \<times> real) list" where
  "distance_column env [] = Inr []"
| "distance_column env (v # vs) =
     ebind (geodesic_km env (vstart_lat v, vstart_lng v) (vend_lat v, vend_lng v)) (\<lambda>d.
     ebind (distance_column env vs) (\<lambda>ds. Inr ((v, d) # ds)))"

definition empty_apply_error :: exc where
  "empty_apply_error =
     ValueError ''Cannot set a DataFrame with multiple columns to the single column trip_distance_km''"

definition select_longest :: "route_env \<Rightarrow> trip list \<Rightarrow> exc + (vrow \<times> real)" where
  "select_longest env rows =
     (let valid_trips = dropna_coords rows
      in ebind (if valid_trips = [] then Inl empty_apply_error else distance_column env valid_trips)
           (\<lambda>measured.
              case idxmax (map (\<lambda>(v, d). (vlabel v, d)) measured) of
                None \<Rightarrow> Inl (ValueError ''attempt to get argmax of an empty sequence'')
              | Some l \<Rightarrow>
                  (case find (\<lambda>(v, d). vlabel v = l) measured of
                     None \<Rightarrow> Inl (KeyError (nat_str l))
                   | Some row \<Rightarrow> Inr row)))"

text \<open>\<open>response.raise_for_status()\<close> of requests.\<close>

definition raise_for_status :: "http_response \<Rightarrow> exc + unit" where
  "raise_for_status r =
     (if 400 \<le> status_code r \<and> status_code r < 500
      then Inl (HTTPError (nat_str (status_code r) @ '' Client Error: '' @ reason r
                           @ '' for url: '' @ url r))
      else if 500 \<le> status_code r \<and> status_code r < 600
      then Inl (HTTPError (nat_str (status_code r) @ '' Server Error: '' @ reason r
                           @ '' for url: '' @ url r))
      else Inr ())"

definition osrm_request :: "route_env \<Rightarrow> string \<Rightarrow> exc + route_result" where
  "osrm_request env u =
     ebind (http_get env u) (\<lambda>response.
     ebind (raise_for_status response) (\<lambda>_.
     ebind (json_loads env (body response)) (\<lambda>j.
     ebind (py_getitem j ''routes'') (\<lambda>routes.
     ebind (py_index0 routes) (\<lambda>route.
     ebind (py_getitem route ''geometry'') (\<lambda>g.
     ebind (polyline_decode env g) (\<lambda>geom.
     ebind (py_getitem route ''distance'') (\<lambda>d.
     ebind (py_truediv d 1000) (\<lambda>dist.
     ebind (py_getitem route ''duration'') (\<lambda>dur.
     Inr \<lparr>geometry = geom, distance = dist, duration = dur\<rparr>))))))))))"

definition osrm_coords :: "route_env \<Rightarrow> real \<times> real \<Rightarrow> real \<times> real \<Rightarrow> string" where
  "osrm_coords env start_coords end_coords =
     float_str env (fst start_coords) @ '','' @ float_str env (snd start_coords) @ '';''
     @ float_str env (fst end_coords) @ '','' @ float_str env (snd end_coords)"

definition get_osrm_route ::
  "route_env \<Rightarrow> string \<Rightarrow> real \<times> real \<Rightarrow> real \<times> real \<Rightarrow> event list \<times> (exc + route_result)" where
  "get_osrm_route env osrm_template start_coords end_coords =
     (let u = py_format1 osrm_template (osrm_coords env start_coords end_coords)
      in case osrm_request env u of
           Inr r \<Rightarrow> ([], Inr r)
         | Inl e \<Rightarrow>
             ([Text (''Error getting OSRM route: '' @ exc_str e)],
              ebind (geodesic_km env (snd start_coords, fst start_coords) (snd end_coords, fst end_coords))
                (\<lambda>d. Inr \<lparr>geometry = [(snd start_coords, fst start_coords), (snd end_coords, fst end_coords)],
                          distance = d, duration = JInt 0\<rparr>)))"

text \<open>
  \<open>_visualize_route\<close>: folium's \<open>PolyLine\<close> validates its locations and raises
  \<open>ValueError('Locations is empty.')\<close> for an empty list, before the map is saved.
\<close>

definition visualize_route :: "route_env \<Rightarrow> vrow \<Rightarrow> real \<Rightarrow> latlng list \<Rightarrow> event list \<times> (exc + unit)" where
  "visualize_route env v trip_distance_km route_coords =
     (let center_lat = (vstart_lat v + vend_lat v) / 2;
          center_lng = (vstart_lng v + vend_lng v) / 2;
          m = folium_map (center_lat, center_lng) 12 ''cartodbpositron'';
          m = add_to (Marker (vstart_lat v, vstart_lng v)
                        (''Start: '' @ py_str_opt (start_station_name (vtrip v)))
                        (Icon ''green'' ''info-sign'')) m;
          m = add_to (Marker (vend_lat v, vend_lng v)
                        (''End: '' @ py_str_opt (end_station_name (vtrip v)))
                        (Icon ''red'' ''info-sign'')) m
      in if route_coords = [] then ([], Inl (ValueError ''Locations is empty.''))
         else
           (let m = add_to (PolyLine route_coords 3 ''blue'' 0.8
                              (''Cycling Route: '' @ fmt_2f env trip_distance_km @ '' km'')) m
            in ([Saved (output_dir @ ''/longest_route.html'') m,
                 Text (''\<newline>Longest route visualization saved to: '' @ output_dir @ ''/longest_route.html'')],
                Inr ())))"

definition route_report ::
  "route_env \<Rightarrow> vrow \<Rightarrow> real \<Rightarrow> route_result \<Rightarrow> event list \<times> (exc + unit)" where
  "route_report env v trip_distance_km route_coords =
     (let shown = [Text ''\<newline>Longest Route Analysis:'', Text (replicate 50 (CHR ''='')),
                   Text (''Start Station: '' @ py_str_opt (start_station_name (vtrip v))),
                   Text (''End Station: '' @ py_str_opt (end_station_name (vtrip v))),
                   Value ''Straight-line Distance'' (Some trip_distance_km),
                   Value ''Actual Route Distance'' (Some (distance route_coords))]
      in case py_truediv (duration route_coords) 60 of
           Inl e \<Rightarrow> (shown, Inl e)
         | Inr minutes \<Rightarrow>
             (case visualize_route env v trip_distance_km (geometry route_coords) of
                (evs, r) \<Rightarrow>
                  (shown @ [Value ''Estimated Cycling Time'' (Some minutes),
                            Value ''Actual Trip Duration'' (trip_duration_mins (vtrip v))] @ evs, r)))"

definition analyze_route :: "route_env \<Rightarrow> route_analyzer \<Rightarrow> event list \<times> (exc + unit)" where
  "analyze_route env ra =
     (case select_longest env (trips (rdf ra)) of
        Inl e \<Rightarrow> ([], Inl e)
      | Inr (longest_trip, d) \<Rightarrow>
          (case get_osrm_route env (osrm_url ra) (vstart_lng longest_trip, vstart_lat longest_trip)
                  (vend_lng longest_trip, vend_lat longest_trip) of
             (evs, Inl e) \<Rightarrow> (evs, Inl e)
           | (evs, Inr route_coords) \<Rightarrow>
               (case route_report env longest_trip d route_coords of
                  (evs', r) \<Rightarrow> (evs @ evs', r))))"

definition has_coords :: "trip \<Rightarrow> bool" where
  "has_coords r \<longleftrightarrow> start_lat r \<noteq> None \<and> start_lng r \<noteq> None \<and> end_lat r \<noteq> None \<and> end_lng r \<noteq> None"

definition example_env :: route_env where
  "example_env =
     \<lparr>geodesic_km = (\<lambda>a b. Inr (\<bar>fst a - fst b\<bar> + \<bar>snd a - snd b\<bar>)),
      http_get = (\<lambda>u. Inl (RequestException ''Max retries exceeded with url'')),
      json_loads = (\<lambda>s. Inl (JSONDecodeError ''Expecting value: line 1 column 1 (char 0)'')),
      polyline_decode = (\<lambda>j. Inr []),
      float_str = (\<lambda>x. ''0.0''),
      fmt_2f = (\<lambda>x. ''0.00'')\<rparr>"

definition example_frame :: frame where
  "example_frame = \<lparr>trips = [example_trip, example_trip\<lparr>end_lng := None\<rparr>, example_trip], station_pair = None\<rparr>"

definition example_longest :: vrow where
  "example_longest =
     \<lparr>vlabel = 0, vtrip = example_trip, vstart_lat = 40.7197, vstart_lng = -74.0431,
      vend_lat = 40.7277, vend_lng = -74.0440\<rparr>"

definition example_route_json :: json where
  "example_route_json =
     JObj [(''code'', JStr ''Ok''),
           (''routes'', JArr [JObj [(''geometry'', JStr ''_p~iF~ps|U''), (''distance'', JInt 1250),
                                    (''duration'', JNull)]])]"

definition example_env_null :: route_env where
  "example_env_null =
     example_env\<lparr>http_get := (\<lambda>u. Inr \<lparr>status_code = 200, reason = ''OK'', url = u, body = ''{}''\<rparr>),
                 json_loads := (\<lambda>s. Inr example_route_json)\<rparr>"

definition example_env_num :: route_env where
  "example_env_num =
     example_env_null\<lparr>json_loads := (\<lambda>s. Inr
        (JObj [(''code'', JStr ''Ok''),
               (''routes'', JArr [JObj [(''geometry'', JStr ''_p~iF~ps|U''), (''distance'', JInt 1250),
                                        (''duration'', JInt 300)]])]))\<rparr>"

lemma valid_row_Some:
  "valid_row (i, r) = Some v \<longleftrightarrow>
     vlabel v = i \<and> vtrip v = r \<and> start_lat r = Some (vstart_lat v) \<and> start_lng r = Some (vstart_lng v) \<and>
     end_lat r = Some (vend_lat v) \<and> end_lng r = Some (vend_lng v)"
  by (cases v) (auto simp: valid_row_def split: option.splits)

lemma valid_row_None: "valid_row (i, r) = None \<longleftrightarrow> \<not> has_coords r"
  by (auto simp: valid_row_def has_coords_def split: option.splits)

lemma valid_row_has_coords: "valid_row (i, r) = Some v \<Longrightarrow> has_coords r \<and> vtrip v = r"
  by (simp add: valid_row_Some has_coords_def)

lemma map_filter_valid_row_trips:
  "map vtrip (List.map_filter valid_row (enumerate n rows)) = filter has_coords rows"
proof (induction rows arbitrary: n)
  case Nil
  then show ?case by simp
next
  case (Cons r rows)
  show ?case
  proof (cases "valid_row (n, r)")
    case None
    moreover have "\<not> has_coords r" using None by (simp add: valid_row_None)
    ultimately show ?thesis using Cons.IH by simp
  next
    case (Some w)
    then show ?thesis using Cons.IH valid_row_has_coords [OF Some] by simp
  qed
qed

lemma map_filter_valid_row_mem:
  "v \<in> set (List.map_filter valid_row (enumerate n rows)) \<Longrightarrow>
     n \<le> vlabel v \<and> vlabel v < n + length rows \<and> rows ! (vlabel v - n) = vtrip v \<and>
     start_lat (vtrip v) = Some (vstart_lat v) \<and> start_lng (vtrip v) = Some (vstart_lng v) \<and>
     end_lat (vtrip v) = Some (vend_lat v) \<and> end_lng (vtrip v) = Some (vend_lng v)"
proof (induction rows arbitrary: n)
  case Nil
  then show ?case by simp
next
  case (Cons r rows)
  show ?case
  proof (cases "valid_row (n, r)")
    case None
    with Cons.prems have "v \<in> set (List.map_filter valid_row (enumerate (Suc n) rows))"
      by simp
    with Cons.IH [of "Suc n"] show ?thesis by auto
  next
    case (Some w)
    show ?thesis
    proof (cases "v = w")
      case True
      with Some show ?thesis by (simp add: valid_row_Some)
    next
      case False
      with Some Cons.prems have "v \<in> set (List.map_filter valid_row (enumerate (Suc n) rows))"
        by simp
      with Cons.IH [of "Suc n"] show ?thesis by auto
    qed
  qed
qed

lemma map_filter_valid_row_sorted:
  "sorted_wrt (<) (map vlabel (List.map_filter valid_row (enumerate n rows)))"
proof (induction rows arbitrary: n)
  case Nil
  then show ?case by simp
next
  case (Cons r rows)
  have later: "\<forall>w \<in> set (List.map_filter valid_row (enumerate (Suc n) rows)). n < vlabel w"
    using map_filter_valid_row_mem [of _ "Suc n" rows] by fastforce
  show ?case
  proof (cases "valid_row (n, r)")
    case None
    with Cons.IH [of "Suc n"] show ?thesis by simp
  next
    case (Some w)
    then have "vlabel w = n" by (simp add: valid_row_Some)
    with Some later Cons.IH [of "Suc n"] show ?thesis by simp
  qed
qed

lemma dropna_coords_sorted: "sorted_wrt (<) (map vlabel (dropna_coords rows))"
  by (simp add: dropna_coords_def map_filter_valid_row_sorted)

lemma dropna_coords_Nil:
  assumes "\<forall>r \<in> set rows.
             start_lat r = None \<or> start_lng r = None \<or> end_lat r = None \<or> end_lng r = None"
  shows "dropna_coords rows = []"
proof -
  have "filter has_coords rows = []"
    using assms by (auto simp: has_coords_def filter_empty_conv)
  then have "map vtrip (dropna_coords rows) = []"
    by (simp add: dropna_coords_def map_filter_valid_row_trips)
  then show ?thesis by simp
qed

lemma distance_column_Inr:
  "distance_column env vs = Inr ms \<Longrightarrow>
     map fst ms = vs \<and>
     (\<forall>(v, d) \<in> set ms. geodesic_km env (vstart_lat v, vstart_lng v) (vend_lat v, vend_lng v) = Inr d)"
  by (induction env vs arbitrary: ms rule: distance_column.induct) (auto simp: ebind_eq_Inr)

lemma distance_column_total:
  "(\<forall>v \<in> set vs. \<exists>d. geodesic_km env (vstart_lat v, vstart_lng v) (vend_lat v, vend_lng v) = Inr d) \<Longrightarrow>
     \<exists>ms. distance_column env vs = Inr ms"
  by (induction env vs rule: distance_column.induct) auto

lemma select_longest_Inr:
  assumes "select_longest env rows = Inr (v, d)"
  shows "\<exists>ms i. distance_column env (dropna_coords rows) = Inr ms \<and> i < length ms \<and>
           ms ! i = (v, d) \<and> (\<forall>j < length ms. snd (ms ! j) \<le> d) \<and> (\<forall>j < i. snd (ms ! j) < d)"
proof -
  let ?vs = "dropna_coords rows"
  let ?L = "\<lambda>ms. map (\<lambda>(v, d). (vlabel v, d)) ms"
  have ne: "?vs \<noteq> []"
  proof
    assume "?vs = []"
    then have "select_longest env rows = Inl empty_apply_error" by (simp add: select_longest_def)
    with assms show False by simp
  qed
  obtain ms where ms: "distance_column env ?vs = Inr ms"
  proof (cases "distance_column env ?vs")
    case (Inl e)
    then have "select_longest env rows = Inl e" using ne by (simp add: select_longest_def)
    with assms show ?thesis by simp
  qed
  have sl: "select_longest env rows =
      (case idxmax (?L ms) of
         None \<Rightarrow> Inl (ValueError ''attempt to get argmax of an empty sequence'')
       | Some l \<Rightarrow> (case find (\<lambda>(v, d). vlabel v = l) ms of
                      None \<Rightarrow> Inl (KeyError (nat_str l)) | Some row \<Rightarrow> Inr row))"
    using ne ms by (simp add: select_longest_def)
  obtain l where l: "idxmax (?L ms) = Some l"
    using assms sl by (cases "idxmax (?L ms)") simp_all
  have found: "find (\<lambda>(v, d). vlabel v = l) ms = Some (v, d)"
    using assms sl l by (cases "find (\<lambda>(v, d). vlabel v = l) ms") simp_all
  from idxmax_first_max [OF l] obtain i where i: "i < length (?L ms)" "fst (?L ms ! i) = l"
      and le: "\<forall>j < length (?L ms). snd (?L ms ! j) \<le> snd (?L ms ! i)"
      and lt: "\<forall>j < i. snd (?L ms ! j) < snd (?L ms ! i)"
    by blast
  have fst_ms: "map fst ms = ?vs" using distance_column_Inr [OF ms] by simp
  have "distinct (map (\<lambda>x. vlabel (fst x)) ms)"
  proof -
    have "map (\<lambda>x. vlabel (fst x)) ms = map vlabel ?vs" by (simp flip: fst_ms)
    moreover have "distinct (map vlabel ?vs)"
      using dropna_coords_sorted [of rows] by (simp add: strict_sorted_iff)
    ultimately show ?thesis by simp
  qed
  moreover have "i < length ms" using i(1) by simp
  ultimately have f1: "find (\<lambda>x. vlabel (fst x) = vlabel (fst (ms ! i))) ms = Some (ms ! i)"
    by (rule find_distinct_key)
  have lab: "vlabel (fst (ms ! i)) = l" using i by (simp add: case_prod_beta)
  have fe: "(\<lambda>(v, d). vlabel v = l) = (\<lambda>x. vlabel (fst x) = l)" by auto
  from f1 have "find (\<lambda>(v, d). vlabel v = l) ms = Some (ms ! i)" by (simp only: lab fe)
  with found have vd: "ms ! i = (v, d)" by simp
  have Lj: "snd (?L ms ! j) = snd (ms ! j)" if "j < length ms" for j
    using that by (simp add: case_prod_beta)
  have im: "i < length ms" using i(1) by simp
  have Li: "snd (?L ms ! i) = d" using Lj [OF im] vd by simp
  have "\<forall>j < length ms. snd (ms ! j) \<le> d" using le Li Lj by simp
  moreover have "\<forall>j < i. snd (ms ! j) < d" using lt Li Lj im by auto
  ultimately show ?thesis using ms im vd by blast
qed

lemma select_longest_geo:
  assumes "select_longest env rows = Inr (v, d)"
  shows "v \<in> set (dropna_coords rows) \<and>
         geodesic_km env (vstart_lat v, vstart_lng v) (vend_lat v, vend_lng v) = Inr d"
proof -
  from select_longest_Inr [OF assms] obtain ms i where ms: "distance_column env (dropna_coords rows) = Inr ms"
      and i: "i < length ms" "ms ! i = (v, d)"
    by blast
  note dc = distance_column_Inr [OF ms]
  have vd: "(v, d) \<in> set ms" using nth_mem [OF i(1)] i(2) by simp
  then have "v \<in> set (map fst ms)" by force
  then have "v \<in> set (dropna_coords rows)" using dc by simp
  moreover have "geodesic_km env (vstart_lat v, vstart_lng v) (vend_lat v, vend_lng v) = Inr d"
    using dc vd by blast
  ultimately show ?thesis by simp
qed

lemma select_longest_cong:
  assumes "geodesic_km env' = geodesic_km env"
  shows "select_longest env' rows = select_longest env rows"
proof -
  have dc: "distance_column env' = distance_column env"
  proof
    fix vs show "distance_column env' vs = distance_column env vs"
      by (induction vs) (simp_all add: assms)
  qed
  show ?thesis by (simp only: select_longest_def dc)
qed

text \<open>
  Claim C5: the trip the route analysis selects has all four coordinates, its
  straight-line distance is at least that of every other trip with all four coordinates,
  and every such trip earlier in the table is strictly shorter: ties go to the first one.
\<close>

theorem longest_trip_first_max:
  assumes "select_longest env rows = Inr (v, d)"
  shows "v \<in> set (dropna_coords rows) \<and>
         geodesic_km env (vstart_lat v, vstart_lng v) (vend_lat v, vend_lng v) = Inr d \<and>
         (\<forall>w \<in> set (dropna_coords rows). \<exists>d'.
            geodesic_km env (vstart_lat w, vstart_lng w) (vend_lat w, vend_lng w) = Inr d' \<and>
            d' \<le> d \<and> (vlabel w < vlabel v \<longrightarrow> d' < d))"
proof -
  let ?vs = "dropna_coords rows"
  from select_longest_Inr [OF assms] obtain ms i where ms: "distance_column env ?vs = Inr ms"
      and i: "i < length ms" "ms ! i = (v, d)"
      and le: "\<forall>j < length ms. snd (ms ! j) \<le> d" and lt: "\<forall>j < i. snd (ms ! j) < d"
    by blast
  note dc = distance_column_Inr [OF ms]
  have fst_ms: "map fst ms = ?vs" using dc by simp
  have geo: "geodesic_km env (vstart_lat w, vstart_lng w) (vend_lat w, vend_lng w) = Inr d'"
    if "(w, d') \<in> set ms" for w d'
    using dc that by blast
  have vd_in: "(v, d) \<in> set ms" using nth_mem [OF i(1)] i(2) by simp
  then have "v \<in> set (map fst ms)" by force
  then have v_in: "v \<in> set ?vs" by (simp only: fst_ms)
  have v_geo: "geodesic_km env (vstart_lat v, vstart_lng v) (vend_lat v, vend_lng v) = Inr d"
    using vd_in by (rule geo)
  have vs_nth: "?vs ! k = fst (ms ! k)" if "k < length ms" for k
    using that by (simp flip: fst_ms)
  have "\<exists>d'. geodesic_km env (vstart_lat w, vstart_lng w) (vend_lat w, vend_lng w) = Inr d' \<and>
            d' \<le> d \<and> (vlabel w < vlabel v \<longrightarrow> d' < d)"
    if "w \<in> set ?vs" for w
  proof -
    from that have "w \<in> set (map fst ms)" by (simp only: fst_ms)
    then obtain j where j: "j < length ms" "fst (ms ! j) = w"
      by (auto simp: in_set_conv_nth)
    have "(w, snd (ms ! j)) \<in> set ms" using nth_mem [OF j(1)] j(2) by (metis prod.collapse)
    then have w_geo: "geodesic_km env (vstart_lat w, vstart_lng w) (vend_lat w, vend_lng w) = Inr (snd (ms ! j))"
      by (rule geo)
    have "j < i" if "vlabel w < vlabel v"
    proof (rule sorted_wrt_less_nth_mono)
      show "sorted_wrt (<) (map vlabel ?vs)" by (rule dropna_coords_sorted)
      have len: "length ?vs = length ms" by (simp flip: fst_ms)
      show "j < length (map vlabel ?vs)" using j(1) len by simp
      show "map vlabel ?vs ! j < map vlabel ?vs ! i"
        using that j i len vs_nth [OF j(1)] vs_nth [OF i(1)] by simp
    qed
    with w_geo le lt j show ?thesis by blast
  qed
  with v_in v_geo show ?thesis by blast
qed

text \<open>
  Claim C28: when at least one trip has all four coordinates and geodesic succeeds on every
  such trip, the selection of the longest trip succeeds.
\<close>

theorem select_longest_succeeds:
  assumes "dropna_coords rows \<noteq> []"
    and "\<forall>w \<in> set (dropna_coords rows). \<exists>d.
           geodesic_km env (vstart_lat w, vstart_lng w) (vend_lat w, vend_lng w) = Inr d"
  shows "\<exists>v d. select_longest env rows = Inr (v, d)"
proof -
  let ?vs = "dropna_coords rows"
  let ?L = "\<lambda>ms. map (\<lambda>(v, d). (vlabel v, d)) ms"
  obtain ms where ms: "distance_column env ?vs = Inr ms"
    using distance_column_total [OF assms(2)] by blast
  have "map fst ms = ?vs" using distance_column_Inr [OF ms] by simp
  then have "?L ms \<noteq> []" using assms(1) by auto
  then have "idxmax (?L ms) \<noteq> None" by (simp add: idxmax_def split: list.splits)
  then obtain l where l: "idxmax (?L ms) = Some l" by blast
  from idxmax_first_max [OF l] obtain i where i: "i < length (?L ms)" "fst (?L ms ! i) = l"
    by blast
  have "(\<lambda>(v, d). vlabel v = l) (ms ! i)" using i by (simp add: case_prod_beta)
  moreover have "ms ! i \<in> set ms" using i(1) by simp
  ultimately obtain row where row: "find (\<lambda>(v, d). vlabel v = l) ms = Some row"
    by (metis find_None_iff not_Some_eq)
  have "select_longest env rows = Inr row"
    using assms(1) ms l row by (simp add: select_longest_def)
  then show ?thesis by (metis prod.collapse)
qed

theorem select_longest_succeeds_witness:
  "\<exists>v d. select_longest example_env [example_trip] = Inr (v, d)"
proof -
  have h1: "dropna_coords [example_trip] \<noteq> []"
    by (simp add: dropna_coords_def valid_row_def example_trip_def mk_trip_def example_row_def)
  have h2: "\<forall>w \<in> set (dropna_coords [example_trip]). \<exists>d.
      geodesic_km example_env (vstart_lat w, vstart_lng w) (vend_lat w, vend_lng w) = Inr d"
    by (simp add: example_env_def)
  show ?thesis using select_longest_succeeds [OF h1 h2] .
qed

text \<open>
  Claim C13: when no trip has all four coordinates, the route analysis raises
  \<open>ValueError\<close> before any request or output: it does not skip the analysis.
\<close>

theorem analyze_route_no_coordinates:
  assumes "\<forall>r \<in> set (trips (rdf ra)).
             start_lat r = None \<or> start_lng r = None \<or> end_lat r = None \<or> end_lng r = None"
  shows "analyze_route env ra = ([], Inl empty_apply_error)"
  using dropna_coords_Nil [OF assms] by (simp add: analyze_route_def select_longest_def)

theorem analyze_route_no_coordinates_witness:
  "analyze_route example_env (RouteAnalyzer \<lparr>trips = [example_trip\<lparr>end_lng := None\<rparr>], station_pair = None\<rparr>)
     = ([], Inl empty_apply_error)"
proof -
  have h: "\<forall>r \<in> set (trips (rdf (RouteAnalyzer \<lparr>trips = [example_trip\<lparr>end_lng := None\<rparr>], station_pair = None\<rparr>))).
      start_lat r = None \<or> start_lng r = None \<or> end_lat r = None \<or> end_lng r = None"
    by (simp add: RouteAnalyzer_def)
  show ?thesis using analyze_route_no_coordinates [OF h] .
qed

text \<open>
  Claim C8: when the OSRM request fails in any way, \<open>_get_osrm_route\<close> prints the error
  and returns the straight line between the two endpoints, as (latitude, longitude)
  pairs, with the geodesic distance and duration 0.
\<close>

theorem osrm_fallback:
  assumes "osrm_request env (py_format1 tmpl (osrm_coords env (lng1, lat1) (lng2, lat2))) = Inl e"
    and "geodesic_km env (lat1, lng1) (lat2, lng2) = Inr d"
  shows "get_osrm_route env tmpl (lng1, lat1) (lng2, lat2) =
           ([Text (''Error getting OSRM route: '' @ exc_str e)],
            Inr \<lparr>geometry = [(lat1, lng1), (lat2, lng2)], distance = d, duration = JInt 0\<rparr>)"
  using assms by (simp add: get_osrm_route_def Let_def)

theorem osrm_fallback_witness:
  "get_osrm_route example_env ''http://router.project-osrm.org/route/v1/cycling/{}'' (-74.0431, 40.7197) (-74.0440, 40.7277)
     = ([Text (''Error getting OSRM route: '' @ ''Max retries exceeded with url'')],
        Inr \<lparr>geometry = [(40.7197, -74.0431), (40.7277, -74.0440)],
             distance = \<bar>40.7197 - 40.7277\<bar> + \<bar>-74.0431 - -74.0440\<bar>, duration = JInt 0\<rparr>)"
proof -
  have h1: "osrm_request example_env (py_format1 ''http://router.project-osrm.org/route/v1/cycling/{}''
      (osrm_coords example_env (-74.0431, 40.7197) (-74.0440, 40.7277)))
      = Inl (RequestException ''Max retries exceeded with url'')"
    by (simp add: osrm_request_def example_env_def)
  have h2: "geodesic_km example_env (40.7197, -74.0431) (40.7277, -74.0440)
      = Inr (\<bar>40.7197 - 40.7277\<bar> + \<bar>-74.0431 - -74.0440\<bar>)"
    by (simp add: example_env_def)
  show ?thesis using osrm_fallback [OF h1 h2] by simp
qed

lemma analyze_route_selected:
  assumes "select_longest env (trips (rdf ra)) = Inr (v, d)"
  shows "analyze_route env ra =
           (case get_osrm_route env (osrm_url ra) (vstart_lng v, vstart_lat v) (vend_lng v, vend_lat v) of
              (evs, Inl e) \<Rightarrow> (evs, Inl e)
            | (evs, Inr route_coords) \<Rightarrow>
                (case route_report env v d route_coords of (evs', r) \<Rightarrow> (evs @ evs', r)))"
  using assms by (simp add: analyze_route_def)

lemma fallback_route:
  assumes "select_longest env rows = Inr (v, d)"
    and "osrm_request env (py_format1 tmpl (osrm_coords env (vstart_lng v, vstart_lat v) (vend_lng v, vend_lat v))) = Inl e"
  shows "get_osrm_route env tmpl (vstart_lng v, vstart_lat v) (vend_lng v, vend_lat v) =
           ([Text (''Error getting OSRM route: '' @ exc_str e)],
            Inr \<lparr>geometry = [(vstart_lat v, vstart_lng v), (vend_lat v, vend_lng v)],
                 distance = d, duration = JInt 0\<rparr>)"
  using assms(2) select_longest_geo [OF assms(1)] by (simp add: get_osrm_route_def Let_def)

text \<open>
  Claim C29: once the longest trip is selected, \<open>_get_osrm_route\<close> returns a route
  for it whatever the routing service does: its fallback never raises.
\<close>

theorem osrm_route_total:
  assumes "select_longest env rows = Inr (v, d)"
  shows "\<exists>r. snd (get_osrm_route env tmpl (vstart_lng v, vstart_lat v) (vend_lng v, vend_lat v)) = Inr r"
proof (cases "osrm_request env (py_format1 tmpl (osrm_coords env (vstart_lng v, vstart_lat v) (vend_lng v, vend_lat v)))")
  case (Inl e)
  with fallback_route [OF assms Inl] show ?thesis by simp
next
  case (Inr r)
  then show ?thesis by (simp add: get_osrm_route_def Let_def)
qed

text \<open>
  Claim C18: when every request to the routing service fails, the route analysis still
  completes: it reports the straight-line distance as the route distance and a cycling
  time of 0, and saves the map of the longest trip with the two-point path between its
  endpoints.
\<close>

theorem analyze_route_service_down:
  assumes "\<forall>u. \<exists>e. http_get env u = Inl e"
    and "select_longest env (trips (rdf ra)) = Inr (v, d)"
  shows "snd (analyze_route env ra) = Inr () \<and>
         Value ''Actual Route Distance'' (Some d) \<in> set (fst (analyze_route env ra)) \<and>
         Value ''Estimated Cycling Time'' (Some 0) \<in> set (fst (analyze_route env ra)) \<and>
         (\<exists>m. Saved (output_dir @ ''/longest_route.html'') m \<in> set (fst (analyze_route env ra)) \<and>
              PolyLine [(vstart_lat v, vstart_lng v), (vend_lat v, vend_lng v)] 3 ''blue'' 0.8
                (''Cycling Route: '' @ fmt_2f env d @ '' km'') \<in> set (children m))"
proof -
  let ?u = "py_format1 (osrm_url ra) (osrm_coords env (vstart_lng v, vstart_lat v) (vend_lng v, vend_lat v))"
  obtain e where "http_get env ?u = Inl e" using assms(1) by blast
  then have "osrm_request env ?u = Inl e" by (simp add: osrm_request_def)
  note fb = fallback_route [OF assms(2) this]
  show ?thesis
    by (simp add: analyze_route_selected [OF assms(2)] fb route_report_def visualize_route_def
        Let_def add_to_def folium_map_def)
qed

text \<open>
  Claim C19: when the routing service answers with a route whose \<open>duration\<close> is not a
  number (\<open>null\<close>, a string, a list or an object), the route analysis prints the
  first six lines of its report, then raises \<open>TypeError\<close> naming the duration's type:
  the cycling time and the trip duration are not printed, no map is saved, and the
  exception reaches the caller.
\<close>

theorem analyze_route_bad_duration:
  assumes "select_longest env (trips (rdf ra)) = Inr (v, d)"
    and "osrm_request env (py_format1 (osrm_url ra)
           (osrm_coords env (vstart_lng v, vstart_lat v) (vend_lng v, vend_lat v))) = Inr r"
    and "duration r = JNull \<or> (\<exists>s. duration r = JStr s) \<or> (\<exists>xs. duration r = JArr xs) \<or>
         (\<exists>kvs. duration r = JObj kvs)"
  shows "analyze_route env ra =
           ([Text ''\<newline>Longest Route Analysis:'', Text (replicate 50 (CHR ''='')),
             Text (''Start Station: '' @ py_str_opt (start_station_name (vtrip v))),
             Text (''End Station: '' @ py_str_opt (end_station_name (vtrip v))),
             Value ''Straight-line Distance'' (Some d),
             Value ''Actual Route Distance'' (Some (distance r))],
            Inl (TypeError (''unsupported operand type(s) for /: '' @ py_repr_str (py_type_name (duration r))
                            @ '' and '' @ py_repr_str ''int'')))"
proof -
  have "py_truediv (duration r) 60 =
      Inl (TypeError (''unsupported operand type(s) for /: '' @ py_repr_str (py_type_name (duration r))
                      @ '' and '' @ py_repr_str ''int''))"
    using assms(3) by auto
  then show ?thesis
    using assms(2) by (simp add: analyze_route_selected [OF assms(1)] get_osrm_route_def Let_def route_report_def)
qed

text \<open>
  Claim C20: when the routing service answers with a route whose geometry decodes to no
  point and whose duration is a number, the route analysis prints its whole report,
  the estimated cycling time included, then folium's \<open>PolyLine\<close> raises
  \<open>ValueError('Locations is empty.')\<close>: no map is saved and the exception reaches the caller.
\<close>

theorem analyze_route_empty_geometry:
  assumes "select_longest env (trips (rdf ra)) = Inr (v, d)"
    and "osrm_request env (py_format1 (osrm_url ra)
           (osrm_coords env (vstart_lng v, vstart_lat v) (vend_lng v, vend_lat v))) = Inr r"
    and "geometry r = []" and "py_truediv (duration r) 60 = Inr t"
  shows "analyze_route env ra =
           ([Text ''\<newline>Longest Route Analysis:'', Text (replicate 50 (CHR ''='')),
             Text (''Start Station: '' @ py_str_opt (start_station_name (vtrip v))),
             Text (''End Station: '' @ py_str_opt (end_station_name (vtrip v))),
             Value ''Straight-line Distance'' (Some d),
             Value ''Actual Route Distance'' (Some (distance r)),
             Value ''Estimated Cycling Time'' (Some t),
             Value ''Actual Trip Duration'' (trip_duration_mins (vtrip v))],
            Inl (ValueError ''Locations is empty.''))"
  using assms(2-4)
  by (simp add: analyze_route_selected [OF assms(1)] get_osrm_route_def Let_def route_report_def
      visualize_route_def)

text \<open>
  Claim C31: \<open>dropna\<close> keeps exactly the trips with all four coordinates, in table
  order, each with its index label and its coordinates.
\<close>

theorem dropna_coords_rows:
  "map vtrip (dropna_coords rows) =
     filter (\<lambda>r. start_lat r \<noteq> None \<and> start_lng r \<noteq> None \<and> end_lat r \<noteq> None \<and> end_lng r \<noteq> None) rows \<and>
   (\<forall>v \<in> set (dropna_coords rows). vlabel v < length rows \<and> rows ! vlabel v = vtrip v \<and>
      start_lat (vtrip v) = Some (vstart_lat v) \<and> start_lng (vtrip v) = Some (vstart_lng v) \<and>
      end_lat (vtrip v) = Some (vend_lat v) \<and> end_lng (vtrip v) = Some (vend_lng v))"
proof -
  have "has_coords = (\<lambda>r. start_lat r \<noteq> None \<and> start_lng r \<noteq> None \<and> end_lat r \<noteq> None \<and> end_lng r \<noteq> None)"
    by (simp add: fun_eq_iff has_coords_def)
  then show ?thesis
    using map_filter_valid_row_mem [of _ 0 rows]
    by (simp add: dropna_coords_def map_filter_valid_row_trips)
qed

lemma route_report_cong:
  assumes "fmt_2f env' = fmt_2f env"
  shows "route_report env' = route_report env"
  unfolding route_report_def visualize_route_def assms ..

lemma get_osrm_route_cong:
  assumes "geodesic_km env' = geodesic_km env" "osrm_coords env' = osrm_coords env"
    and "osrm_request env' (py_format1 tmpl (osrm_coords env a b)) = osrm_request env (py_format1 tmpl (osrm_coords env a b))"
  shows "get_osrm_route env' tmpl a b = get_osrm_route env tmpl a b"
  unfolding get_osrm_route_def Let_def assms ..

lemma get_osrm_route_http_cong:
  assumes "f (py_format1 tmpl (osrm_coords env a b)) = http_get env (py_format1 tmpl (osrm_coords env a b))"
  shows "get_osrm_route (env\<lparr>http_get := f\<rparr>) tmpl a b = get_osrm_route env tmpl a b"
proof (rule get_osrm_route_cong)
  show "osrm_coords (env\<lparr>http_get := f\<rparr>) = osrm_coords env"
    by (simp add: fun_eq_iff osrm_coords_def)
  show "osrm_request (env\<lparr>http_get := f\<rparr>) (py_format1 tmpl (osrm_coords env a b)) =
        osrm_request env (py_format1 tmpl (osrm_coords env a b))"
    using assms by (simp add: osrm_request_def)
qed simp

lemma osrm_template_format:
  "py_format1 (osrm_url (RouteAnalyzer df)) c = ''http://router.project-osrm.org/route/v1/cycling/'' @ c"
  using py_format1_prefix [of "''http://router.project-osrm.org/route/v1/cycling/''" c]
  by (simp add: RouteAnalyzer_def)

text \<open>
  Claim C30: the route analysis sends one request, for the selected trip, to the OSRM
  cycling endpoint with the coordinates in longitude,latitude order: the service's
  answer at any other URL does not change what the analysis does.
\<close>

theorem analyze_route_requests_only:
  assumes "select_longest env (trips df) = Inr (v, d)"
  shows "analyze_route
           (env\<lparr>http_get := (\<lambda>u. if u = ''http://router.project-osrm.org/route/v1/cycling/''
                      @ float_str env (vstart_lng v) @ '','' @ float_str env (vstart_lat v) @ '';''
                      @ float_str env (vend_lng v) @ '','' @ float_str env (vend_lat v)
                    then http_get env u else other u)\<rparr>)
           (RouteAnalyzer df)
         = analyze_route env (RouteAnalyzer df)"
    (is "analyze_route (env\<lparr>http_get := ?f\<rparr>) ?ra = _")
proof -
  have sel: "select_longest (env\<lparr>http_get := ?f\<rparr>) (trips (rdf ?ra)) = Inr (v, d)"
    using assms select_longest_cong [of "env\<lparr>http_get := ?f\<rparr>" env] by (simp add: RouteAnalyzer_def)
  have sel': "select_longest env (trips (rdf ?ra)) = Inr (v, d)"
    using assms by (simp add: RouteAnalyzer_def)
  have url: "?f (py_format1 (osrm_url ?ra) (osrm_coords env (vstart_lng v, vstart_lat v) (vend_lng v, vend_lat v)))
           = http_get env (py_format1 (osrm_url ?ra) (osrm_coords env (vstart_lng v, vstart_lat v) (vend_lng v, vend_lat v)))"
    by (simp only: osrm_template_format osrm_coords_def fst_conv snd_conv simp_thms(6) if_True append_assoc)
  have rr: "route_report (env\<lparr>http_get := ?f\<rparr>) = route_report env"
    by (rule route_report_cong) simp
  show ?thesis
    by (simp only: analyze_route_selected [OF sel] analyze_route_selected [OF sel']
        get_osrm_route_http_cong [of ?f, OF url] rr)
qed

lemma example_dropna: "dropna_coords (trips example_frame) =
   [example_longest, example_longest\<lparr>vlabel := 2\<rparr>]"
  by (simp add: dropna_coords_def valid_row_def example_frame_def example_longest_def
      example_trip_def mk_trip_def example_row_def)

lemma example_select:
  "select_longest env (trips example_frame) = Inr (example_longest, 0.0089)"
  if "env = example_env \<or> env = example_env_null"
  using that by (auto simp: select_longest_def example_dropna example_env_def example_env_null_def
      example_longest_def idxmax_def)

lemma example_select_env: "select_longest example_env (trips example_frame) = Inr (example_longest, 0.0089)"
  by (rule example_select) simp

theorem longest_trip_first_max_witness:
  "select_longest example_env (trips example_frame) = Inr (example_longest, 0.0089) \<and>
   example_longest \<in> set (dropna_coords (trips example_frame)) \<and>
   geodesic_km example_env (vstart_lat example_longest, vstart_lng example_longest)
     (vend_lat example_longest, vend_lng example_longest) = Inr 0.0089 \<and>
   (\<exists>d'. geodesic_km example_env (40.7197, -74.0431) (40.7277, -74.0440) = Inr d' \<and> d' \<le> 0.0089)"
proof -
  let ?w = "example_longest\<lparr>vlabel := 2\<rparr>"
  note c = longest_trip_first_max [OF example_select_env]
  have w: "?w \<in> set (dropna_coords (trips example_frame))"
    by (simp add: example_dropna)
  have "\<exists>d'. geodesic_km example_env (vstart_lat ?w, vstart_lng ?w) (vend_lat ?w, vend_lng ?w) = Inr d' \<and>
      d' \<le> 0.0089"
    using c w by blast
  moreover have "vstart_lat ?w = 40.7197" "vstart_lng ?w = -74.0431" "vend_lat ?w = 40.7277"
      "vend_lng ?w = -74.0440"
    by (simp_all add: example_longest_def)
  ultimately have "\<exists>d'. geodesic_km example_env (40.7197, -74.0431) (40.7277, -74.0440) = Inr d' \<and> d' \<le> 0.0089"
    by (simp only:)
  with example_select_env c show ?thesis by blast
qed

theorem osrm_route_total_witness:
  "\<exists>r. snd (get_osrm_route example_env ''http://router.project-osrm.org/route/v1/cycling/{}''
          (vstart_lng example_longest, vstart_lat example_longest)
          (vend_lng example_longest, vend_lat example_longest)) = Inr r"
  using osrm_route_total [OF example_select_env] by blast

theorem analyze_route_service_down_witness:
  "snd (analyze_route example_env (RouteAnalyzer example_frame)) = Inr () \<and>
   Value ''Actual Route Distance'' (Some 0.0089) \<in> set (fst (analyze_route example_env (RouteAnalyzer example_frame)))"
proof -
  have h1: "\<forall>u. \<exists>e. http_get example_env u = Inl e" by (simp add: example_env_def)
  have h2: "select_longest example_env (trips (rdf (RouteAnalyzer example_frame))) = Inr (example_longest, 0.0089)"
    by (simp add: RouteAnalyzer_def example_select_env)
  show ?thesis using analyze_route_service_down [OF h1 h2] by blast
qed

theorem analyze_route_bad_duration_witness:
  "snd (analyze_route example_env_null (RouteAnalyzer example_frame)) =
     Inl (TypeError (''unsupported operand type(s) for /: '' @ py_repr_str ''NoneType''
                     @ '' and '' @ py_repr_str ''int''))"
proof -
  let ?u = "py_format1 (osrm_url (RouteAnalyzer example_frame))
      (osrm_coords example_env_null (vstart_lng example_longest, vstart_lat example_longest)
         (vend_lng example_longest, vend_lat example_longest))"
  let ?r = "\<lparr>geometry = [], distance = 1.25 :: real, duration = JNull\<rparr>"
  have h1: "select_longest example_env_null (trips (rdf (RouteAnalyzer example_frame))) = Inr (example_longest, 0.0089)"
    by (simp add: RouteAnalyzer_def example_select)
  have h2: "osrm_request example_env_null ?u = Inr ?r"
    by (simp add: osrm_request_def example_env_null_def example_env_def raise_for_status_def
        example_route_json_def)
  have h3: "duration ?r = JNull \<or> (\<exists>s. duration ?r = JStr s) \<or> (\<exists>xs. duration ?r = JArr xs) \<or>
      (\<exists>kvs. duration ?r = JObj kvs)" by simp
  show ?thesis using analyze_route_bad_duration [OF h1 h2 h3] by simp
qed

theorem analyze_route_empty_geometry_witness:
  "snd (analyze_route example_env_num (RouteAnalyzer example_frame)) = Inl (ValueError ''Locations is empty.'')"
proof -
  let ?u = "py_format1 (osrm_url (RouteAnalyzer example_frame))
      (osrm_coords example_env_num (vstart_lng example_longest, vstart_lat example_longest)
         (vend_lng example_longest, vend_lat example_longest))"
  let ?r = "\<lparr>geometry = [], distance = 1.25 :: real, duration = JInt 300\<rparr>"
  have h1: "select_longest example_env_num (trips (rdf (RouteAnalyzer example_frame))) = Inr (example_longest, 0.0089)"
    using select_longest_cong [of example_env_num example_env_null "trips example_frame"]
    by (simp add: RouteAnalyzer_def example_select example_env_num_def)
  have h2: "osrm_request example_env_num ?u = Inr ?r"
    by (simp add: osrm_request_def example_env_num_def example_env_null_def example_env_def raise_for_status_def)
  have h3: "geometry ?r = []" by simp
  have h4: "py_truediv (duration ?r) 60 = Inr 5" by simp
  show ?thesis using analyze_route_empty_geometry [OF h1 h2 h3 h4] by simp
qed

theorem dropna_coords_rows_witness:
  "map vtrip (dropna_coords (trips example_frame)) = [example_trip, example_trip] \<and>
   map vlabel (dropna_coords (trips example_frame)) = [0, 2]"
proof -
  have "filter (\<lambda>r. start_lat r \<noteq> None \<and> start_lng r \<noteq> None \<and> end_lat r \<noteq> None \<and> end_lng r \<noteq> None)
      (trips example_frame) = [example_trip, example_trip]"
    by (simp add: example_frame_def example_trip_def mk_trip_def example_row_def del: not_None_eq)
  then show ?thesis using conjunct1 [OF dropna_coords_rows [of "trips example_frame"]]
    by (simp add: example_dropna example_longest_def)
qed

theorem analyze_route_requests_only_witness:
  "analyze_route
     (example_env\<lparr>http_get := (\<lambda>u. if u = ''http://router.project-osrm.org/route/v1/cycling/0.0,0.0;0.0,0.0''
                 then http_get example_env u
                 else Inr \<lparr>status_code = 200, reason = ''OK'', url = u, body = ''{}''\<rparr>)\<rparr>)
     (RouteAnalyzer example_frame)
   = analyze_route example_env (RouteAnalyzer example_frame)"
  using analyze_route_requests_only [OF example_select_env,
      of "\<lambda>u. Inr \<lparr>status_code = 200, reason = ''OK'', url = u, body = ''{}''\<rparr>"]
  by (simp add: example_env_def)

end
