(* ===== verification/Analyzers.thy ===== *)
theory Analyzers
  imports Route
begin

text \<open>
  The analyzers of \<open>src/src/analyzers/\<close>: \<open>TripAnalyzer\<close> (\<open>trip_analyzer.py\<close>),
  \<open>SpatialAnalyzer\<close> (\<open>spatial_analyzer.py\<close>), \<open>CityAnalyzer\<close> (\<open>city_analyzer.py\<close>)
  and the interface \<open>BaseAnalyzer\<close> (\<open>base_analyzer.py\<close>) through which \<open>main\<close> runs
  them with \<open>RouteAnalyzer\<close>. Each method is a function of the frame to the events it
  prints; a printed Series is a \<open>Series\<close> event named after its index column, with
  its labels as strings and its values as reals.

  All analyzers of a run are built on the same DataFrame object, and
  \<open>SpatialAnalyzer.analyze\<close> writes the column \<open>station_pair\<close> into it. The model keeps
  that sharing explicit: an \<open>analyzer\<close> holds no frame of its own, \<open>analyze\<close> takes
  the shared frame and returns it updated, and \<open>run_analyzers\<close> threads it through
  the list in order, stopping at the first exception as the \<open>for\<close> loop of \<open>main\<close>
  does.

  Timestamps are nanoseconds since 1970-01-01 00:00 (naive, as \<open>pd.to_datetime\<close>
  returns them for the file's strings): \<open>.dt.hour\<close> is the hour of the day of the
  floored time and \<open>.dt.day_name()\<close> the weekday, 1970-01-01 being a Thursday.
\<close>

definition count_series :: "string \<Rightarrow> ('k \<times> nat) list \<Rightarrow> ('k \<Rightarrow> string) \<Rightarrow> event" where
  "count_series name s lbl = Series name (map (\<lambda>(k, c). (lbl k, real c)) s)"

subsection \<open>TripAnalyzer\<close>

definition analyze_basic_stats :: "frame \<Rightarrow> event list" where
  "analyze_basic_stats df =
     [Text ''\<newline>1. Basic Trip Statistics:'', Text (replicate 50 (CHR ''='')),
      Value ''Total number of trips'' (Some (real (length (trips df)))),
      Value ''Average trip duration'' (series_mean (map trip_duration_mins (trips df))),
      Value ''Median trip duration'' (series_median (map trip_duration_mins (trips df)))]"

definition analyze_membership :: "frame \<Rightarrow> event list" where
  "analyze_membership df =
     (let member_stats = value_counts (map member_casual (trips df))
      in [Text ''\<newline>2. Membership Analysis:'', Text (replicate 50 (CHR ''='')),
          Text ''\<newline>Rider Types:'', count_series ''member_casual'' member_stats id,
          Text ''\<newline>Percentage:'',
          Series ''member_casual'' (series_percent member_stats (length (trips df)))])"

definition analyze_stations :: "frame \<Rightarrow> event list" where
  "analyze_stations df =
     [Text ''\<newline>3. Station Analysis:'', Text (replicate 50 (CHR ''='')),
      Text ''\<newline>Top Start Stations:'',
      count_series ''start_station_name'' (head 5 (value_counts (map start_station_name (trips df)))) id,
      Text ''\<newline>Top End Stations:'',
      count_series ''end_station_name'' (head 5 (value_counts (map end_station_name (trips df)))) id]"

definition ns_per_hour :: int where
  "ns_per_hour = 3600 * 1000000000"

definition ns_per_day :: int where
  "ns_per_day = 24 * ns_per_hour"

definition dt_hour :: "timestamp \<Rightarrow> nat" where
  "dt_hour t = nat ((t div ns_per_hour) mod 24)"

definition day_names :: "string list" where
  "day_names = [''Thursday'', ''Friday'', ''Saturday'', ''Sunday'', ''Monday'', ''Tuesday'', ''Wednesday'']"

definition dt_day_name :: "timestamp \<Rightarrow> string" where
  "dt_day_name t = day_names ! nat ((t div ns_per_day) mod 7)"

definition hourly_counts :: "frame \<Rightarrow> (nat \<times> nat) list" where
  "hourly_counts df = sort_index (value_counts (map (map_option dt_hour \<circ> started_at) (trips df)))"

definition daily_counts :: "frame \<Rightarrow> (string \<times> nat) list" where
  "daily_counts df = value_counts (map (map_option dt_day_name \<circ> started_at) (trips df))"

definition analyze_temporal_patterns :: "frame \<Rightarrow> event list" where
  "analyze_temporal_patterns df =
     (let hourly = hourly_counts df;
          daily = daily_counts df
      in [Text ''\<newline>4. Temporal Patterns:'', Text (replicate 50 (CHR ''='')),
          Text ''\<newline>Hourly Distribution:'', count_series ''started_at'' hourly nat_str,
          Text ''\<newline>Day of Week Distribution:'', count_series ''started_at'' daily id])"

definition analyze_bike_types :: "frame \<Rightarrow> event list" where
  "analyze_bike_types df =
     (let bike_stats = value_counts (map rideable_type (trips df))
      in [Text ''\<newline>5. Bike Type Analysis:'', Text (replicate 50 (CHR ''='')),
          Text ''\<newline>Bike Types:'', count_series ''rideable_type'' bike_stats id,
          Text ''\<newline>Percentage:'',
          Series ''rideable_type'' (series_percent bike_stats (length (trips df)))])"

definition analyze_trips :: "frame \<Rightarrow> event list" where
  "analyze_trips df =
     analyze_basic_stats df @ analyze_membership df @ analyze_stations df
     @ analyze_temporal_patterns df @ analyze_bike_types df"

subsection \<open>SpatialAnalyzer\<close>

text \<open>The separator \<open>' \<rightarrow> '\<close>, its arrow (U+2192) in UTF-8.\<close>

definition arrow_sep :: string where
  "arrow_sep = [CHR 0x20, CHR 0xE2, CHR 0x86, CHR 0x92, CHR 0x20]"

text \<open>\<open>df['start_station_name'] + ' \<rightarrow> ' + df['end_station_name']\<close>: NaN on either side gives NaN.\<close>

definition station_pairs :: "trip list \<Rightarrow> string option list" where
  "station_pairs rows =
     map (\<lambda>r. case (start_station_name r, end_station_name r) of
                (Some a, Some b) \<Rightarrow> Some (a @ arrow_sep @ b)
              | _ \<Rightarrow> None) rows"

definition analyze_spatial :: "frame \<Rightarrow> frame \<times> event list" where
  "analyze_spatial df =
     (let col = station_pairs (trips df);
          df = df\<lparr>station_pair := Some col\<rparr>;
          popular_routes = head 10 (value_counts col)
      in (df, [Text ''\<newline>Most Popular Routes:'', Text (replicate 50 (CHR ''='')),
               count_series ''station_pair'' popular_routes id]))"

subsection \<open>CityAnalyzer\<close>

definition analyze_city :: "frame \<Rightarrow> event list" where
  "analyze_city df =
     [Text ''\<newline>City-based Analysis:'', Text (replicate 50 (CHR ''='')),
      Text ''\<newline>Top Start Stations:'',
      count_series ''start_station_name'' (head 5 (value_counts (map start_station_name (trips df)))) id,
      Text ''\<newline>Top End Stations:'',
      count_series ''end_station_name'' (head 5 (value_counts (map end_station_name (trips df)))) id]"

subsection \<open>BaseAnalyzer\<close>

text \<open>
  The four subclasses \<open>main\<close> instantiates; \<open>analyze\<close> dispatches on the class, over
  the shared frame, and returns the frame, the events and the exception raised, if any.
\<close>

datatype analyzer = TripA | SpatialA | CityA | RouteA

fun analyze :: "route_env \<Rightarrow> analyzer \<Rightarrow> frame \<Rightarrow> frame \<times> event list \<times> (exc + unit)" where
  "analyze env TripA df = (df, analyze_trips df, Inr ())"
| "analyze env SpatialA df = (case analyze_spatial df of (df', evs) \<Rightarrow> (df', evs, Inr ()))"
| "analyze env CityA df = (df, analyze_city df, Inr ())"
| "analyze env RouteA df = (case analyze_route env (RouteAnalyzer df) of (evs, r) \<Rightarrow> (df, evs, r))"

fun run_analyzers :: "route_env \<Rightarrow> analyzer list \<Rightarrow> frame \<Rightarrow> frame \<times> event list \<times> (exc + unit)" where
  "run_analyzers env [] df = (df, [], Inr ())"
| "run_analyzers env (a # as) df =
     (case analyze env a df of
        (df', evs, Inl e) \<Rightarrow> (df', evs, Inl e)
      | (df', evs, Inr u) \<Rightarrow>
          (case run_analyzers env as df' of (df'', evs', r) \<Rightarrow> (df'', evs @ evs', r)))"

text \<open>
  The reference for the shared frame: every analyzer run on the frame as loaded, as
  if each had its own copy.
\<close>

fun run_on_copies :: "route_env \<Rightarrow> analyzer list \<Rightarrow> frame \<Rightarrow> event list \<times> (exc + unit)" where
  "run_on_copies env [] df = ([], Inr ())"
| "run_on_copies env (a # as) df =
     (case analyze env a df of
        (_, evs, Inl e) \<Rightarrow> (evs, Inl e)
      | (_, evs, Inr u) \<Rightarrow> (case run_on_copies env as df of (evs', r) \<Rightarrow> (evs @ evs', r)))"

text \<open>
  The invariant of the shared frame: a \<open>station_pair\<close> column, once present, has one
  entry per trip, which is \<open>start \<rightarrow> end\<close> when both station names are present and
  NaN otherwise.
\<close>

definition wf_frame :: "frame \<Rightarrow> bool" where
  "wf_frame df \<longleftrightarrow>
     (case station_pair df of
        None \<Rightarrow> True
      | Some col \<Rightarrow>
          list_all2 (\<lambda>p r. p = Option.bind (start_station_name r) (\<lambda>a.
                               map_option (\<lambda>b. a @ '' '' @ [CHR 0xE2, CHR 0x86, CHR 0x92] @ '' '' @ b)
                                 (end_station_name r)))
            col (trips df))"


text \<open>A frame with a trip missing its rider type, for the witnesses.\<close>

definition example_frame_nan :: frame where
  "example_frame_nan = \<lparr>trips = [example_trip, example_trip\<lparr>member_casual := None\<rparr>], station_pair = None\<rparr>"

lemma count_series_inj:
  "count_series n s lbl = count_series n s' lbl \<Longrightarrow> inj lbl \<Longrightarrow> s = s'"
proof -
  assume eq: "count_series n s lbl = count_series n s' lbl" and i: "inj lbl"
  have "inj (\<lambda>(k, c). (lbl k, real c :: real))"
    using i by (auto simp: inj_def)
  moreover have "map (\<lambda>(k, c). (lbl k, real c :: real)) s = map (\<lambda>(k, c). (lbl k, real c)) s'"
    using eq by (simp add: count_series_def)
  ultimately show "s = s'" by (simp add: inj_map_eq_map)
qed

lemmas example_frame_defs = example_frame_def example_trip_def mk_trip_def example_row_def

lemma last_membership:
  "last (analyze_membership df) =
     Series ''member_casual'' (series_percent (value_counts (map member_casual (trips df))) (length (trips df)))"
  by (simp add: analyze_membership_def Let_def)

lemma mult_100_eq: "(x :: real) * 100 = 100 \<longleftrightarrow> x = 1"
  by auto

text \<open>
  Claim C9: the percentages of rider types sum to 100 exactly when no trip misses
  \<open>member_casual\<close>: they are divided by all rows, NaN ones included.
\<close>

theorem membership_percent_total:
  assumes "trips df \<noteq> []"
    and "last (analyze_membership df) = Series ''member_casual'' ps"
  shows "sum_list (map snd ps) = 100 \<longleftrightarrow> (\<forall>r \<in> set (trips df). member_casual r \<noteq> None)"
proof -
  let ?col = "map member_casual (trips df)"
  have ps: "ps = series_percent (value_counts ?col) (length (trips df))"
    using assms(2) by (simp add: last_membership)
  have n: "0 < real (length (trips df))" using assms(1) by simp
  have "sum_list (map snd ps) = real (length (filter (\<lambda>c. c \<noteq> None) ?col)) / real (length (trips df)) * 100"
    by (simp add: ps percent_value_counts)
  also have "\<dots> = 100 \<longleftrightarrow> real (length (filter (\<lambda>c. c \<noteq> None) ?col)) / real (length (trips df)) = 1"
    by (rule mult_100_eq)
  also have "\<dots> \<longleftrightarrow> length (filter (\<lambda>c. c \<noteq> None) ?col) = length (trips df)"
    using n by (simp only: divide_eq_1_iff of_nat_eq_iff) simp
  also have "\<dots> \<longleftrightarrow> (\<forall>r \<in> set (trips df). member_casual r \<noteq> None)"
  proof -
    have "length (filter (\<lambda>c. c \<noteq> None) ?col) = length (filter (\<lambda>r. member_casual r \<noteq> None) (trips df))"
      by (simp add: filter_map comp_def)
    then show ?thesis by (simp only: filter_all_iff)
  qed
  finally show ?thesis .
qed

text \<open>
  Claim C10: the top start stations \<open>_analyze_stations\<close> prints are five distinct
  stations, or all of them when fewer than five appear, each with its number of trips,
  listed by that number, highest first, and no station left out has more trips than
  any station listed.
\<close>

theorem top_start_stations:
  "\<exists>top. analyze_stations df ! 3 = count_series ''start_station_name'' top id \<and>
     length top = min 5 (card {s. \<exists>r \<in> set (trips df). start_station_name r = Some s}) \<and> sorted_wrt (\<lambda>a b. snd b \<le> snd a) top \<and> distinct (map fst top) \<and>
     (\<forall>(s, c) \<in> set top.
        0 < c \<and> c = length (filter (\<lambda>r. start_station_name r = Some s) (trips df)) \<and>
        (\<forall>s'. s' \<notin> fst ` set top \<longrightarrow>
           length (filter (\<lambda>r. start_station_name r = Some s') (trips df)) \<le> c))"
proof -
  let ?top = "head 5 (value_counts (map start_station_name (trips df)))"
  have "analyze_stations df ! 3 = count_series ''start_station_name'' ?top id"
    by (simp add: analyze_stations_def)
  moreover note top_values [of 5 "map start_station_name (trips df)", unfolded count_list_map]
  moreover have "length ?top = min 5 (card {s. \<exists>r \<in> set (trips df). start_station_name r = Some s})"
    by (simp add: top_values_length image_iff eq_commute)
  ultimately show ?thesis by blast
qed

lemma dt_hour_lt: "dt_hour t < 24"
  by (simp add: dt_hour_def nat_less_iff)

text \<open>
  Claim C12: the hourly distribution lists each hour of the day at most once, in
  increasing order, with the number of trips that started in it; the counts add up
  to the number of trips with a start time.
\<close>

theorem hourly_distribution:
  "sorted_wrt (<) (map fst (hourly_counts df)) \<and>
   (\<forall>(h, c) \<in> set (hourly_counts df). h < 24 \<and> 0 < c \<and>
      c = length (filter (\<lambda>r. map_option dt_hour (started_at r) = Some h) (trips df))) \<and>
   sum_list (map snd (hourly_counts df)) = length (filter (\<lambda>r. started_at r \<noteq> None) (trips df))"
proof -
  let ?col = "map (map_option dt_hour \<circ> started_at) (trips df)"
  have s: "sorted_wrt (<) (map fst (hourly_counts df))"
    unfolding hourly_counts_def by (rule sort_index_keys [OF value_counts_keys_distinct])
  have m: "h < 24 \<and> 0 < c \<and>
      c = length (filter (\<lambda>r. map_option dt_hour (started_at r) = Some h) (trips df))"
    if hc: "(h, c) \<in> set (hourly_counts df)" for h c
  proof -
    have vc: "(h, c) \<in> set (value_counts ?col)" using hc by (simp add: hourly_counts_def)
    then have "Some h \<in> set ?col" by (simp add: value_counts_mem)
    moreover have "\<forall>x \<in> set ?col. case x of None \<Rightarrow> True | Some h' \<Rightarrow> h' < 24"
      by (auto simp: dt_hour_lt split: option.split)
    ultimately have "h < 24" by fastforce
    moreover have "0 < c" using vc by (rule value_counts_pos)
    moreover have "c = count_list ?col (Some h)" using vc by (simp add: value_counts_mem)
    ultimately show ?thesis by (simp add: count_list_map)
  qed
  have "sum_list (map snd (hourly_counts df)) = sum_list (map snd (value_counts ?col))"
    by (simp add: hourly_counts_def sort_index_def sum_list_sort_key)
  also have "\<dots> = length (filter (\<lambda>r. started_at r \<noteq> None) (trips df))"
    by (simp only: value_counts_sum present_count comp_def map_option_is_None)
  finally show ?thesis using s m by blast
qed

text \<open>
  Claim C26: the average trip duration printed is the mean of the durations present,
  and the median printed splits them in halves: at least half of them are at most the
  median and at least half at least it; trips without a duration are skipped.
\<close>

theorem trip_duration_stats:
  assumes "analyze_basic_stats df ! 3 = Value ''Average trip duration'' (Some a)"
    and "analyze_basic_stats df ! 4 = Value ''Median trip duration'' (Some m)"
  shows "a * real (length (dropna_values (map trip_duration_mins (trips df)))) =
           sum_list (dropna_values (map trip_duration_mins (trips df))) \<and>
         length (dropna_values (map trip_duration_mins (trips df))) \<le>
           2 * length (filter (\<lambda>x. x \<le> m) (dropna_values (map trip_duration_mins (trips df)))) \<and>
         length (dropna_values (map trip_duration_mins (trips df))) \<le>
           2 * length (filter (\<lambda>x. m \<le> x) (dropna_values (map trip_duration_mins (trips df))))"
proof -
  let ?xs = "dropna_values (map trip_duration_mins (trips df))"
  have "series_mean (map trip_duration_mins (trips df)) = Some a"
    using assms(1) by (simp add: analyze_basic_stats_def)
  then have "?xs \<noteq> [] \<and> a = sum_list ?xs / real (length ?xs)"
    by (auto simp: series_mean_def Let_def split: if_splits)
  then have "a * real (length ?xs) = sum_list ?xs" by simp
  moreover have "series_median (map trip_duration_mins (trips df)) = Some m"
    using assms(2) by (simp add: analyze_basic_stats_def)
  then have "length ?xs \<le> 2 * length (filter (\<lambda>x. x \<le> m) ?xs) \<and>
      length ?xs \<le> 2 * length (filter (\<lambda>x. m \<le> x) ?xs)"
    by (rule series_median_halves)
  ultimately show ?thesis by blast
qed



text \<open>A route label does not identify its pair of stations.\<close>

lemma station_pair_ambiguous:
  "station_pairs [example_trip\<lparr>start_station_name := Some ''A'', end_station_name := Some (''B'' @ arrow_sep @ ''C'')\<rparr>]
   = station_pairs [example_trip\<lparr>start_station_name := Some (''A'' @ arrow_sep @ ''B''), end_station_name := Some ''C''\<rparr>] \<and>
   (Some ''A'', Some (''B'' @ arrow_sep @ ''C'')) \<noteq> (Some (''A'' @ arrow_sep @ ''B''), Some ''C'')"
  by (simp add: station_pairs_def arrow_sep_def)

lemma analyze_route_trips:
  assumes "trips df1 = trips df2"
  shows "analyze_route env (RouteAnalyzer df1) = analyze_route env (RouteAnalyzer df2)"
  unfolding analyze_route_def RouteAnalyzer_def route_analyzer.simps assms ..

lemma analyze_trips_cong:
  assumes "trips df1 = trips df2"
  shows "analyze_trips df1 = analyze_trips df2"
  unfolding analyze_trips_def analyze_basic_stats_def analyze_membership_def
    analyze_stations_def analyze_temporal_patterns_def hourly_counts_def daily_counts_def
    analyze_bike_types_def assms ..

lemma analyze_trips_eq:
  assumes "trips df1 = trips df2"
  shows "snd (analyze env a df1) = snd (analyze env a df2)"
proof (cases a)
  case TripA
  then show ?thesis using analyze_trips_cong [OF assms] by simp
next
  case SpatialA
  then show ?thesis by (simp add: analyze_spatial_def Let_def assms)
next
  case CityA
  then show ?thesis by (simp add: analyze_city_def assms)
next
  case RouteA
  then show ?thesis using analyze_route_trips [OF assms, of env] by (simp split: prod.split)
qed

lemma analyze_keeps_trips: "trips (fst (analyze env a df)) = trips df"
  by (cases a) (simp_all add: analyze_spatial_def Let_def split: prod.split)

lemma run_analyzers_copies:
  "trips df' = trips df \<Longrightarrow>
   snd (run_analyzers env as df') = run_on_copies env as df \<and> trips (fst (run_analyzers env as df')) = trips df"
proof (induction as arbitrary: df')
  case Nil
  then show ?case by simp
next
  case (Cons a as)
  obtain df1 evs r where a': "analyze env a df' = (df1, evs, r)" by (cases "analyze env a df'") auto
  have "snd (analyze env a df) = (evs, r)" using analyze_trips_eq [OF Cons.prems, of env a] a' by simp
  then obtain df2 where a: "analyze env a df = (df2, evs, r)" by (cases "analyze env a df") auto
  have t1: "trips df1 = trips df" using analyze_keeps_trips [of env a df'] a' Cons.prems by simp
  show ?case
  proof (cases r)
    case (Inl e)
    then show ?thesis using a a' t1 by simp
  next
    case (Inr u)
    obtain df3 evs3 r3 where r3: "run_analyzers env as df1 = (df3, evs3, r3)"
      by (cases "run_analyzers env as df1") auto
    have "run_on_copies env as df = (evs3, r3) \<and> trips df3 = trips df"
      using Cons.IH [OF t1] r3 by simp
    then show ?thesis using a a' Inr r3 by simp
  qed
qed

text \<open>
  Claim C3: running the analyzers one after the other on the one shared frame, which
  \<open>SpatialAnalyzer\<close> writes \<open>station_pair\<close> into, prints and raises exactly what
  running each on its own copy of the loaded frame would, and never changes the trips.
\<close>

theorem shared_frame_refines_copies:
  "snd (run_analyzers env as df) = run_on_copies env as df \<and>
   trips (fst (run_analyzers env as df)) = trips df"
  by (rule run_analyzers_copies) (rule refl)

lemma example_start_stations:
  "analyze_stations example_frame ! 3 = count_series ''start_station_name'' [(''Grove St PATH'', 3)] id"
  by (simp add: analyze_stations_def example_frame_defs value_counts_def dropna_values_def
      count_values_def count_step_def dict_get_def head_def numeral_3_eq_3)

theorem top_start_stations_witness:
  "analyze_stations example_frame ! 3 = count_series ''start_station_name'' [(''Grove St PATH'', 3)] id \<and>
   length (filter (\<lambda>r. start_station_name r = Some ''Grove St PATH'') (trips example_frame)) = 3"
proof -
  obtain top where t: "analyze_stations example_frame ! 3 = count_series ''start_station_name'' top id"
      and all: "\<forall>(s, c) \<in> set top. 0 < c \<and>
        c = length (filter (\<lambda>r. start_station_name r = Some s) (trips example_frame)) \<and>
        (\<forall>s'. s' \<notin> fst ` set top \<longrightarrow>
           length (filter (\<lambda>r. start_station_name r = Some s') (trips example_frame)) \<le> c)"
    using top_start_stations [of example_frame] by blast
  have "count_series ''start_station_name'' top id = count_series ''start_station_name'' [(''Grove St PATH'', 3)] id"
    using t example_start_stations by simp
  then have "top = [(''Grove St PATH'', 3)]" by (rule count_series_inj) simp
  with all example_start_stations show ?thesis by simp
qed

theorem membership_percent_total_witness:
  "last (analyze_membership example_frame_nan) = Series ''member_casual'' [(''member'', 50)] \<and>
   (sum_list (map snd [(''member'', 50 :: real)]) = 100 \<longleftrightarrow> False)"
proof -
  have h1: "trips example_frame_nan \<noteq> []" by (simp add: example_frame_nan_def)
  have h2: "last (analyze_membership example_frame_nan) = Series ''member_casual'' [(''member'', 50)]"
    by (simp add: last_membership example_frame_nan_def example_trip_def mk_trip_def example_row_def
        value_counts_def dropna_values_def count_values_def count_step_def dict_get_def series_percent_def)
  have "\<not> (\<forall>r \<in> set (trips example_frame_nan). member_casual r \<noteq> None)"
    by (simp add: example_frame_nan_def)
  then show ?thesis using h2 membership_percent_total [OF h1 h2] by blast
qed

lemma example_hourly: "hourly_counts example_frame = [(8, 3)]"
  by (simp add: hourly_counts_def example_frame_defs value_counts_def dropna_values_def
      count_values_def count_step_def dict_get_def sort_index_def dt_hour_def ns_per_hour_def numeral_3_eq_3)

theorem hourly_distribution_witness:
  "hourly_counts example_frame = [(8, 3)] \<and>
   length (filter (\<lambda>r. map_option dt_hour (started_at r) = Some 8) (trips example_frame)) = 3"
  using hourly_distribution [of example_frame] example_hourly by simp

theorem trip_duration_stats_witness:
  "analyze_basic_stats example_frame ! 3 = Value ''Average trip duration'' (Some 10) \<and>
   analyze_basic_stats example_frame ! 4 = Value ''Median trip duration'' (Some 10) \<and>
   3 \<le> 2 * length (filter (\<lambda>x. x \<le> 10) [10, 10, 10 :: real])"
proof -
  have d: "map trip_duration_mins (trips example_frame) = [Some 10, Some 10, Some 10]"
    by (simp add: example_frame_defs duration_mins_def)
  have h1: "analyze_basic_stats example_frame ! 3 = Value ''Average trip duration'' (Some 10)"
    by (simp add: analyze_basic_stats_def d series_mean_def dropna_values_def)
  have h2: "analyze_basic_stats example_frame ! 4 = Value ''Median trip duration'' (Some 10)"
    by (simp add: analyze_basic_stats_def d series_median_def dropna_values_def)
  have "dropna_values (map trip_duration_mins (trips example_frame)) = [10, 10, 10]"
    by (simp add: d dropna_values_def)
  then show ?thesis using trip_duration_stats [OF h1 h2] h1 h2 by simp
qed



lemma station_pairs_labels:
  "list_all2 (\<lambda>p r. p = Option.bind (start_station_name r) (\<lambda>a.
                     map_option (\<lambda>b. a @ '' '' @ [CHR 0xE2, CHR 0x86, CHR 0x92] @ '' '' @ b)
                       (end_station_name r)))
     (station_pairs rows) rows"
  by (induction rows) (auto simp: station_pairs_def arrow_sep_def split: option.split)

lemma wf_analyze: "wf_frame df \<Longrightarrow> wf_frame (fst (analyze env a df))"
proof (cases a)
  case SpatialA
  then show ?thesis
    using station_pairs_labels [of "trips df"] by (simp add: wf_frame_def analyze_spatial_def Let_def)
qed (simp_all split: prod.split)

text \<open>
  Claim C4: the frame \<open>load\<close> returns is well formed, and stays so through any
  sequence of analyzers: once \<open>station_pair\<close> is present it has one entry per trip,
  \<open>start \<rightarrow> end\<close> when both station names are present and NaN otherwise.
\<close>

theorem frame_invariant:
  assumes "load read_csv parse path = Inr df"
  shows "wf_frame df \<and> wf_frame (fst (run_analyzers env as df))"
proof -
  have w: "wf_frame df" using assms
    by (auto simp: load_def wf_frame_def split: sum.splits read_error.splits)
  have "wf_frame (fst (run_analyzers env as df'))" if "wf_frame df'" for df'
    using that
  proof (induction as arbitrary: df')
    case Nil
    then show ?case by simp
  next
    case (Cons a as)
    obtain df1 evs r where a: "analyze env a df' = (df1, evs, r)" by (cases "analyze env a df'") auto
    have w1: "wf_frame df1" using wf_analyze [OF Cons.prems, of env a] a by simp
    show ?case using a w1 Cons.IH [OF w1] by (cases r) (auto split: prod.split)
  qed
  with w show ?thesis by blast
qed

theorem frame_invariant_witness:
  "wf_frame \<lparr>trips = [example_trip], station_pair = None\<rparr> \<and>
   wf_frame (fst (run_analyzers example_env [TripA, SpatialA, CityA, RouteA]
                   \<lparr>trips = [example_trip], station_pair = None\<rparr>))"
proof -
  have h: "load (\<lambda>_. Inr [example_row]) example_parse ''data/JC-202501-citibike-tripdata.csv''
      = Inr \<lparr>trips = [example_trip], station_pair = None\<rparr>"
    by (simp add: load_def preprocess_data_def example_parse_def example_row_def example_trip_def)
  show ?thesis using frame_invariant [OF h] by blast
qed

end
