(* ===== verification/Hexbin.thy ===== *)
theory Hexbin
  imports Trips
begin

text \<open>
  \<open>src/src/visualizers/h3_visualizer.py\<close>, class \<open>H3Visualizer\<close>. The object's state
  is the record \<open>h3_vis\<close> (the shared frame, the resolution, the map centre). The
  H3 library is the parameter \<open>'h h3_api\<close>, with \<open>'h\<close> the type of cell ids:
  \<open>latlng_to_cell lat lng res\<close> and \<open>cell_to_boundary h\<close> give \<open>None\<close> where
  h3 raises. The code reads a coordinate with \<open>float(row[...])\<close>, which turns a
  missing value into \<open>nan\<close> without raising; h3 then raises on the non-finite
  coordinate, and the bare \<open>except\<close> skips the row: so a row with a missing coordinate
  reaches the model's \<open>latlng_to_cell\<close> never and is skipped (\<open>hex_cell\<close>).
  The colour and popup of a cell are the exact strings the code builds;
  \<open>legend_html\<close> keeps the legend's content and drops its indentation.
\<close>

record 'h h3_api =
  latlng_to_cell :: "real \<Rightarrow> real \<Rightarrow> nat \<Rightarrow> 'h option"
  cell_to_boundary :: "'h \<Rightarrow> latlng list option"

record h3_vis =
  vdf :: frame
  resolution :: nat
  center :: latlng

datatype location_type = Start | End

definition H3Visualizer :: "frame \<Rightarrow> nat \<Rightarrow> h3_vis" where
  "H3Visualizer df res = \<lparr>vdf = df, resolution = res, center = (40.7178, -74.0431)\<rparr>"

definition default_resolution :: nat where
  "default_resolution = 9"

fun loc_lat :: "location_type \<Rightarrow> trip \<Rightarrow> real option" where
  "loc_lat Start r = start_lat r"
| "loc_lat End r = end_lat r"

fun loc_lng :: "location_type \<Rightarrow> trip \<Rightarrow> real option" where
  "loc_lng Start r = start_lng r"
| "loc_lng End r = end_lng r"

definition create_base_map :: "h3_vis \<Rightarrow> fmap" where
  "create_base_map v = folium_map (center v) 13 ''cartodbpositron''"

text \<open>The body of the \<open>try\<close> in \<open>_get_hexagons\<close>: the cell of one row, \<open>None\<close> where it raises.\<close>

definition hex_cell :: "'h h3_api \<Rightarrow> nat \<Rightarrow> location_type \<Rightarrow> trip \<Rightarrow> 'h option" where
  "hex_cell api res lt row =
     (case (loc_lat lt row, loc_lng lt row) of
        (Some lat, Some lng) \<Rightarrow> latlng_to_cell api lat lng res
      | _ \<Rightarrow> None)"

fun get_hexagons_loop ::
  "'h h3_api \<Rightarrow> nat \<Rightarrow> location_type \<Rightarrow> ('h, nat) pydict \<Rightarrow> trip list \<Rightarrow> ('h, nat) pydict" where
  "get_hexagons_loop api res lt hexagon_counts [] = hexagon_counts"
| "get_hexagons_loop api res lt hexagon_counts (row # rows) =
     get_hexagons_loop api res lt
       (case hex_cell api res lt row of
          None \<Rightarrow> hexagon_counts
        | Some hex_id \<Rightarrow> dict_set hexagon_counts hex_id (dict_get hexagon_counts hex_id 0 + 1))
       rows"

definition get_hexagons :: "'h h3_api \<Rightarrow> h3_vis \<Rightarrow> trip list \<Rightarrow> location_type \<Rightarrow> ('h, nat) pydict" where
  "get_hexagons api v df location_type = get_hexagons_loop api (resolution v) location_type [] df"

definition get_color :: "real \<Rightarrow> string \<Rightarrow> string" where
  "get_color intensity base =
     (if base = ''red'' then ''#'' @ fmt_02x (py_int (255 * intensity)) @ ''0000''
      else ''#0000'' @ fmt_02x (py_int (255 * intensity)))"

text \<open>\<open>max(hexagons.values()) if hexagons else 1\<close>.\<close>

definition max_count :: "('h, nat) pydict \<Rightarrow> nat" where
  "max_count hexagons = (case map snd hexagons of [] \<Rightarrow> 1 | c # cs \<Rightarrow> fold max cs c)"

definition hex_polygon :: "latlng list \<Rightarrow> nat \<Rightarrow> nat \<Rightarrow> string \<Rightarrow> layer" where
  "hex_polygon boundaries cnt mx color_base =
     Polygon boundaries (get_color (real cnt / real mx) color_base) True
       (''Trips: '' @ nat_str cnt) 0.6 1"

fun add_hexagons_loop ::
  "'h h3_api \<Rightarrow> string \<Rightarrow> nat \<Rightarrow> ('h, nat) pydict \<Rightarrow> fmap \<Rightarrow> fmap" where
  "add_hexagons_loop api color_base mx [] m = m"
| "add_hexagons_loop api color_base mx ((h3_id, cnt) # hs) m =
     add_hexagons_loop api color_base mx hs
       (case cell_to_boundary api h3_id of
          None \<Rightarrow> m
        | Some boundaries \<Rightarrow> add_to (hex_polygon boundaries cnt mx color_base) m)"

definition add_hexagons_to_map :: "'h h3_api \<Rightarrow> fmap \<Rightarrow> ('h, nat) pydict \<Rightarrow> string \<Rightarrow> fmap" where
  "add_hexagons_to_map api m hexagons color_base =
     add_hexagons_loop api color_base (max_count hexagons) hexagons m"

definition add_start_locations :: "'h h3_api \<Rightarrow> h3_vis \<Rightarrow> fmap \<Rightarrow> fmap" where
  "add_start_locations api v m =
     add_hexagons_to_map api m (get_hexagons api v (trips (vdf v)) Start) ''red''"

definition add_end_locations :: "'h h3_api \<Rightarrow> h3_vis \<Rightarrow> fmap \<Rightarrow> fmap" where
  "add_end_locations api v m =
     add_hexagons_to_map api m (get_hexagons api v (trips (vdf v)) End) ''blue''"

definition legend_html :: "string \<Rightarrow> string \<Rightarrow> string \<Rightarrow> string" where
  \<open>legend_html title high low =
     ''<div style="position: fixed; bottom: 50px; right: 50px; width: 150px; height: 90px; ''
     @ ''border:2px solid grey; z-index:9999; background-color:white; padding: 10px; ''
     @ ''font-size: 14px;"><p><b>'' @ title @ ''</b></p><p><i style="background: '' @ high
     @ ''"></i> High Density </p><p><i style="background: '' @ low
     @ ''"></i> Low Density </p></div>''\<close>

definition add_legends :: "fmap \<Rightarrow> string \<Rightarrow> fmap" where
  "add_legends m title =
     (let color = (if py_in ''Start'' title then ''#ff0000'' else ''#0000ff'')
      in add_to (Element (legend_html title color (py_replace ''ff'' ''33'' color))) m)"

definition save_maps :: "fmap \<Rightarrow> fmap \<Rightarrow> event list" where
  "save_maps m_start m_end =
     [Saved (output_dir @ ''/citibike_start_locations.html'') m_start,
      Saved (output_dir @ ''/citibike_end_locations.html'') m_end,
      Text (''\<newline>Visualizations saved to:\<newline>'' @ output_dir @ ''/citibike_start_locations.html\<newline>''
            @ output_dir @ ''/citibike_end_locations.html'')]"

definition create_visualizations :: "'h h3_api \<Rightarrow> h3_vis \<Rightarrow> event list" where
  "create_visualizations api v =
     (let m_start = create_base_map v;
          m_end = create_base_map v;
          m_start = add_start_locations api v m_start;
          m_end = add_end_locations api v m_end;
          m_start = add_legends m_start ''Start Locations'';
          m_end = add_legends m_end ''End Locations''
      in save_maps m_start m_end)"

text \<open>A CSS colour \<open>#rrggbb\<close> in lower-case hexadecimal.\<close>

definition is_hex_colour :: "string \<Rightarrow> bool" where
  "is_hex_colour s \<longleftrightarrow> length s = 7 \<and> take 1 s = ''#'' \<and> list_all (\<lambda>c. c \<in> set hex_digits) (drop 1 s)"

text \<open>A grid for the witnesses: every point is its own cell.\<close>

definition point_api :: "latlng h3_api" where
  "point_api = \<lparr>latlng_to_cell = (\<lambda>lat lng res. Some (lat, lng)), cell_to_boundary = (\<lambda>p. Some [p])\<rparr>"

definition example_vis :: h3_vis where
  "example_vis = H3Visualizer \<lparr>trips = [example_trip], station_pair = None\<rparr> default_resolution"

subsection \<open>Lemmas\<close>

lemma get_hexagons_loop_eq:
  "get_hexagons_loop api res lt hc rows = foldl count_step hc (List.map_filter (hex_cell api res lt) rows)"
  by (induction rows arbitrary: hc) (auto simp: List.map_filter_def count_step_def split: option.splits)

lemma get_hexagons_count_values:
  "get_hexagons api v rows lt = count_values (List.map_filter (hex_cell api (resolution v) lt) rows)"
  by (simp add: get_hexagons_def get_hexagons_loop_eq count_values_def)

lemma hex_cell_missing:
  "loc_lat lt r = None \<or> loc_lng lt r = None \<Longrightarrow> hex_cell api res lt r = None"
  by (auto simp: hex_cell_def split: option.splits)

lemma max_count_ge: "(h, c) \<in> set hs \<Longrightarrow> c \<le> max_count hs"
proof (cases "map snd hs")
  case Nil
  then show "(h, c) \<in> set hs \<Longrightarrow> c \<le> max_count hs" by simp
next
  case (Cons c0 cs)
  assume "(h, c) \<in> set hs"
  then have "c \<in> set (c0 # cs)" using Cons by (metis image_eqI list.set_map snd_conv)
  then show ?thesis using Cons by (simp add: max_count_def Max.set_eq_fold [symmetric])
qed

lemma add_hexagons_loop_children:
  "children (add_hexagons_loop api base mx hs m) =
     children m @ List.map_filter (\<lambda>(h, c). map_option (\<lambda>b. hex_polygon b c mx base) (cell_to_boundary api h)) hs"
  by (induction hs arbitrary: m) (auto simp: List.map_filter_def add_to_def split: option.splits)

lemma get_color_one: "get_color 1 ''red'' = ''#ff0000''" "get_color 1 ''blue'' = ''#0000ff''"
  by (simp_all add: get_color_def py_int_def fmt_02x_def zpad_def show_base.simps digit_char_def)

lemma get_color_dark:
  assumes "0 \<le> x" "255 * x < 1" shows "get_color x ''red'' = ''#000000''"
proof -
  have "\<lfloor>255 * x\<rfloor> = 0" using assms by linarith
  then show ?thesis using assms by (simp add: get_color_def py_int_def fmt_02x_def zpad_def show_base.simps digit_char_def)
qed

lemma max_count_mem: "hs \<noteq> [] \<Longrightarrow> \<exists>h. (h, max_count hs) \<in> set hs"
proof -
  assume "hs \<noteq> []"
  then obtain c0 cs where cs: "map snd hs = c0 # cs" by (cases hs) auto
  then have "max_count hs = Max (set (c0 # cs))"
    by (simp add: max_count_def Max.set_eq_fold [symmetric])
  moreover have "Max (set (c0 # cs)) \<in> set (c0 # cs)" by (rule Max_in) simp_all
  ultimately have "max_count hs \<in> set (map snd hs)" using cs by simp
  then show ?thesis by auto
qed

lemma max_count_eq:
  assumes "(h, c) \<in> set hs" "\<forall>(h', c') \<in> set hs. c' \<le> c"
  shows "max_count hs = c"
proof -
  have "hs \<noteq> []" using assms(1) by auto
  then obtain h' where "(h', max_count hs) \<in> set hs" by (blast dest: max_count_mem)
  with assms(2) have "max_count hs \<le> c" by auto
  with max_count_ge [OF assms(1)] show ?thesis by simp
qed

lemma polygon_drawn:
  assumes "(h, c) \<in> set hs" "cell_to_boundary api h = Some b"
  shows "hex_polygon b c (max_count hs) base \<in> set (children (add_hexagons_to_map api m hs base))"
proof -
  have "hex_polygon b c (max_count hs) base \<in>
          set (List.map_filter (\<lambda>(h, c). map_option (\<lambda>b. hex_polygon b c (max_count hs) base)
                 (cell_to_boundary api h)) hs)"
    by (rule in_set_map_filter [OF assms(1)]) (simp add: assms(2))
  then show ?thesis by (simp add: add_hexagons_to_map_def add_hexagons_loop_children)
qed

lemma intensity_bounds:
  assumes "(h, c) \<in> set hs" "0 < c"
  shows "0 < real c / real (max_count hs)" "real c / real (max_count hs) \<le> 1"
proof -
  have "c \<le> max_count hs" using assms(1) by (rule max_count_ge)
  with assms(2) show "0 < real c / real (max_count hs)" "real c / real (max_count hs) \<le> 1"
    by simp_all
qed

lemma get_color_red:
  assumes "0 \<le> x" "x \<le> 1"
  shows "get_color x ''red'' = ''#'' @ fmt_02x \<lfloor>255 * x\<rfloor> @ ''0000''"
    and "0 \<le> \<lfloor>255 * x\<rfloor>" "\<lfloor>255 * x\<rfloor> \<le> 255"
  using assms by (simp_all add: get_color_def py_int_def)

text \<open>
  Claim C14: a cell whose count is the largest in its map is drawn at full intensity:
  pure red \<open>#ff0000\<close> on the start map, pure blue \<open>#0000ff\<close> on the end map.
\<close>

theorem busiest_cell_full_intensity:
  assumes "(h, c) \<in> set hs" "\<forall>(h', c') \<in> set hs. c' \<le> c" "0 < c"
    and "cell_to_boundary api h = Some b"
  shows "Polygon b ''#ff0000'' True (''Trips: '' @ nat_str c) 0.6 1
           \<in> set (children (add_hexagons_to_map api m hs ''red'')) \<and>
         Polygon b ''#0000ff'' True (''Trips: '' @ nat_str c) 0.6 1
           \<in> set (children (add_hexagons_to_map api m hs ''blue''))"
proof -
  have mc: "max_count hs = c" using assms(1,2) by (rule max_count_eq)
  have one: "real c / real c = 1" using assms(3) by simp
  have red: "hex_polygon b c c ''red'' = Polygon b ''#ff0000'' True (''Trips: '' @ nat_str c) 0.6 1"
    by (simp only: hex_polygon_def one get_color_one)
  have blue: "hex_polygon b c c ''blue'' = Polygon b ''#0000ff'' True (''Trips: '' @ nat_str c) 0.6 1"
    by (simp only: hex_polygon_def one get_color_one)
  have "Polygon b ''#ff0000'' True (''Trips: '' @ nat_str c) 0.6 1
           \<in> set (children (add_hexagons_to_map api m hs ''red''))"
    using polygon_drawn [OF assms(1,4), of "''red''" m] by (simp only: mc red)
  moreover have "Polygon b ''#0000ff'' True (''Trips: '' @ nat_str c) 0.6 1
           \<in> set (children (add_hexagons_to_map api m hs ''blue''))"
    using polygon_drawn [OF assms(1,4), of "''blue''" m] by (simp only: mc blue)
  ultimately show ?thesis ..
qed

theorem busiest_cell_full_intensity_witness:
  "Polygon [(1, 2)] ''#ff0000'' True (''Trips: '' @ nat_str 3) 0.6 1
     \<in> set (children (add_hexagons_to_map point_api (folium_map (0, 0) 13 ''cartodbpositron'')
                          [((1, 2), 3), ((3, 4), 1)] ''red''))"
proof -
  have h1: "((1::real, 2::real), 3::nat) \<in> set [((1, 2), 3), ((3, 4), 1)]" by simp
  have h2: "\<forall>(h', c') \<in> set [((1::real, 2::real), 3::nat), ((3, 4), 1)]. c' \<le> 3" by simp
  have h3: "cell_to_boundary point_api (1, 2) = Some [(1, 2)]" by (simp add: point_api_def)
  show ?thesis
    using busiest_cell_full_intensity [OF h1 h2 _ h3, of "folium_map (0, 0) 13 ''cartodbpositron''"]
    by simp
qed

text \<open>
  Claim C6: \<open>_get_hexagons\<close> maps each cell to the number of rows whose coordinate pair
  of the given role lies in it; cells no row lies in are absent, and no cell appears twice.
\<close>

theorem get_hexagons_counts:
  "distinct (map fst (get_hexagons api v rows lt)) \<and>
   map_of (get_hexagons api v rows lt) h =
     (let n = length (filter (\<lambda>r. hex_cell api (resolution v) lt r = Some h) rows)
      in if n = 0 then None else Some n)"
proof -
  let ?ks = "List.map_filter (hex_cell api (resolution v) lt) rows"
  let ?n = "length (filter (\<lambda>r. hex_cell api (resolution v) lt r = Some h) rows)"
  have "h \<in> set ?ks \<longleftrightarrow> ?n \<noteq> 0"
    using count_list_0_iff [of ?ks h] count_list_map_filter [of _ rows h] by simp
  then show ?thesis
    by (simp add: get_hexagons_count_values count_values_distinct count_values_lookup
        count_list_map_filter Let_def)
qed

text \<open>
  Claim C22: a row with a missing latitude or longitude for the role is skipped: adding it
  anywhere to the table leaves the hexagon counts unchanged.
\<close>

theorem get_hexagons_skips_missing:
  assumes "loc_lat lt r = None \<or> loc_lng lt r = None"
  shows "get_hexagons api v (xs @ r # ys) lt = get_hexagons api v (xs @ ys) lt"
proof -
  have "hex_cell api (resolution v) lt r = None" using assms by (rule hex_cell_missing)
  then show ?thesis by (simp add: get_hexagons_count_values map_filter_append_skip)
qed

theorem get_hexagons_skips_missing_witness:
  "loc_lat Start (example_trip\<lparr>start_lat := None\<rparr>) = None \<and>
   get_hexagons point_api example_vis ([example_trip] @ example_trip\<lparr>start_lat := None\<rparr> # []) Start
     = get_hexagons point_api example_vis ([example_trip] @ []) Start"
  using get_hexagons_skips_missing [of Start "example_trip\<lparr>start_lat := None\<rparr>" point_api example_vis
      "[example_trip]" "[]"]
  by simp

text \<open>
  Claim C21: the counts of a hexagon map add up to the number of rows whose coordinate
  pair was bucketed, which is at most the number of rows with both coordinates present.
\<close>

theorem get_hexagons_total:
  "sum_list (map snd (get_hexagons api v rows lt)) =
     length (filter (\<lambda>r. hex_cell api (resolution v) lt r \<noteq> None) rows) \<and>
   sum_list (map snd (get_hexagons api v rows lt)) \<le>
     length (filter (\<lambda>r. loc_lat lt r \<noteq> None \<and> loc_lng lt r \<noteq> None) rows)"
proof -
  have len: "length (List.map_filter f xs) = length (filter (\<lambda>x. f x \<noteq> None) xs)" for f :: "trip \<Rightarrow> 'h option" and xs
    by (induction xs) (auto simp: List.map_filter_def)
  have le: "length (filter (\<lambda>r. hex_cell api (resolution v) lt r \<noteq> None) rows)
      \<le> length (filter (\<lambda>r. loc_lat lt r \<noteq> None \<and> loc_lng lt r \<noteq> None) rows)"
    by (induction rows) (auto simp: hex_cell_missing)
  show ?thesis
    using le by (simp add: get_hexagons_count_values count_values_sum len)
qed

text \<open>
  Claim C27: every polygon \<open>_add_hexagons_to_map\<close> draws for the counts of
  \<open>_get_hexagons\<close> is the polygon of a cell with a positive count: a cell with zero
  trips is never drawn.
\<close>

theorem drawn_cells_nonzero:
  assumes "l \<in> set (children (add_hexagons_to_map api m (get_hexagons api v rows lt) base))"
    and "l \<notin> set (children m)"
  shows "\<exists>h c b. (h, c) \<in> set (get_hexagons api v rows lt) \<and> 0 < c \<and>
           cell_to_boundary api h = Some b \<and>
           l = hex_polygon b c (max_count (get_hexagons api v rows lt)) base"
proof -
  let ?hs = "get_hexagons api v rows lt"
  from assms have "l \<in> set (List.map_filter (\<lambda>(h, c). map_option
      (\<lambda>b. hex_polygon b c (max_count ?hs) base) (cell_to_boundary api h)) ?hs)"
    by (simp add: add_hexagons_to_map_def add_hexagons_loop_children)
  then obtain h c b where "(h, c) \<in> set ?hs" "cell_to_boundary api h = Some b"
      "l = hex_polygon b c (max_count ?hs) base"
    by (auto simp: List.map_filter_def split: option.splits)
  moreover have "0 < c" using \<open>(h, c) \<in> set ?hs\<close>
    by (simp add: get_hexagons_count_values count_values_pos)
  ultimately show ?thesis by blast
qed

theorem drawn_cells_nonzero_witness:
  "hex_polygon [(40.7197, -74.0431)] 1 1 ''red''
     \<in> set (children (add_hexagons_to_map point_api (create_base_map example_vis)
                 (get_hexagons point_api example_vis [example_trip] Start) ''red'')) \<and>
   hex_polygon [(40.7197, -74.0431)] 1 1 ''red'' \<notin> set (children (create_base_map example_vis)) \<and>
   (\<exists>h c b. (h, c) \<in> set (get_hexagons point_api example_vis [example_trip] Start) \<and> 0 < c \<and>
      cell_to_boundary point_api h = Some b \<and>
      hex_polygon [(40.7197, -74.0431)] 1 1 ''red'' =
        hex_polygon b c (max_count (get_hexagons point_api example_vis [example_trip] Start)) ''red'')"
proof -
  have hs: "get_hexagons point_api example_vis [example_trip] Start = [((40.7197, -74.0431), 1)]"
    by (simp add: get_hexagons_def hex_cell_def point_api_def example_trip_def mk_trip_def
        example_row_def example_vis_def H3Visualizer_def dict_get_def)
  have h1: "hex_polygon [(40.7197, -74.0431)] 1 1 ''red''
     \<in> set (children (add_hexagons_to_map point_api (create_base_map example_vis)
                 (get_hexagons point_api example_vis [example_trip] Start) ''red''))"
    unfolding hs by (simp add: add_hexagons_to_map_def max_count_def point_api_def add_to_def
        create_base_map_def folium_map_def)
  have h2: "hex_polygon [(40.7197, -74.0431)] 1 1 ''red'' \<notin> set (children (create_base_map example_vis))"
    by (simp add: create_base_map_def folium_map_def)
  show ?thesis using h1 h2 drawn_cells_nonzero [OF h1 h2] by blast
qed

text \<open>
  Claim C23: the colour of a drawn cell is \<open>#\<close>, two hexadecimal digits and \<open>0000\<close>,
  the digits encoding \<open>int(255 * count / max_count)\<close>, which is at most 255.
\<close>

theorem cell_color_channel:
  assumes "(h, c) \<in> set hs" "0 < c"
  shows "\<exists>d. get_color (real c / real (max_count hs)) ''red'' = ''#'' @ d @ ''0000'' \<and>
           length d = 2 \<and> read_base 16 d = nat \<lfloor>255 * (real c / real (max_count hs))\<rfloor> \<and>
           nat \<lfloor>255 * (real c / real (max_count hs))\<rfloor> \<le> 255"
proof -
  let ?x = "real c / real (max_count hs)"
  have x: "0 \<le> ?x" "?x \<le> 1" using intensity_bounds [OF assms] by simp_all
  note col = get_color_red [OF x]
  show ?thesis
  proof (intro exI conjI)
    show "get_color ?x ''red'' = ''#'' @ fmt_02x \<lfloor>255 * ?x\<rfloor> @ ''0000''" by (rule col(1))
    show "length (fmt_02x \<lfloor>255 * ?x\<rfloor>) = 2" using col(2,3) by (simp add: fmt_02x_length)
    show "read_base 16 (fmt_02x \<lfloor>255 * ?x\<rfloor>) = nat \<lfloor>255 * ?x\<rfloor>" using col(2) by (rule fmt_02x_read)
    show "nat \<lfloor>255 * ?x\<rfloor> \<le> 255" using col(3) by (subst nat_le_iff) simp
  qed
qed

theorem cell_color_channel_witness:
  "\<exists>d. get_color (real (3::nat) / real (max_count [((1::real, 2::real), 3::nat), ((3, 4), 6)])) ''red''
          = ''#'' @ d @ ''0000'' \<and> length d = 2 \<and>
        read_base 16 d = nat \<lfloor>255 * (real (3::nat) / real (max_count [((1::real, 2::real), 3::nat), ((3, 4), 6)]))\<rfloor> \<and>
        nat \<lfloor>255 * (real (3::nat) / real (max_count [((1::real, 2::real), 3::nat), ((3, 4), 6)]))\<rfloor> \<le> 255"
proof (rule cell_color_channel)
  show "((1::real, 2::real), 3::nat) \<in> set [((1, 2), 3), ((3, 4), 6)]" by simp
qed simp

text \<open>
  Claim C25: the colour scale runs from black to the full colour: a cell with less than
  1/255 of the busiest cell's count is drawn black, \<open>#000000\<close>, on the start map.
\<close>

theorem low_density_black:
  assumes "0 < c" and "255 * c < mx"
  shows "get_color (real c / real mx) ''red'' = ''#000000''"
proof (rule get_color_dark)
  show "0 \<le> real c / real mx" by simp
  have "255 * real c < real mx" using assms(2) by (simp add: of_nat_less_iff [symmetric])
  then show "255 * (real c / real mx) < 1" using assms by (simp add: field_simps)
qed

theorem low_density_black_witness:
  "(0::nat) < 1 \<and> 255 * (1::nat) < 300 \<and> get_color (real (1::nat) / real (300::nat)) ''red'' = ''#000000''"
  using low_density_black [of 1 300] by simp

text \<open>
  Claim C24: for every intensity between 0 and 1, \<open>_get_color\<close> returns a well-formed
  colour, \<open>#\<close> and six lower-case hexadecimal digits, on both maps.
\<close>

theorem get_color_well_formed:
  assumes "0 \<le> x" "x \<le> 1"
  shows "is_hex_colour (get_color x ''red'') \<and> is_hex_colour (get_color x ''blue'')"
proof -
  have i: "0 \<le> \<lfloor>255 * x\<rfloor>" "\<lfloor>255 * x\<rfloor> < 256" using assms by linarith+
  note f = fmt_02x_hex [OF i]
  have z: "list_all (\<lambda>c. c \<in> set hex_digits) ''0000''" by (simp add: hex_digits_def)
  have "get_color x ''red'' = ''#'' @ fmt_02x \<lfloor>255 * x\<rfloor> @ ''0000''"
       "get_color x ''blue'' = ''#0000'' @ fmt_02x \<lfloor>255 * x\<rfloor>"
    using assms by (simp_all add: get_color_def py_int_def)
  then show ?thesis using f z by (simp add: is_hex_colour_def)
qed

theorem get_color_well_formed_witness:
  "is_hex_colour (get_color (1 / 2) ''red'') \<and> is_hex_colour (get_color (1 / 2) ''blue'')"
  by (rule get_color_well_formed) simp_all

end
