(* ===== verification/Pipeline.thy ===== *)
theory Pipeline
  imports Analyzers Hexbin
begin

text \<open>
  \<open>src/src/main.py\<close>, function \<open>main\<close>: it loads the trip file, runs the four analyzers
  in order on the one loaded frame, draws the two hexagon maps from that frame (as the
  analyzers left it), and prints \<open>Error: \<close> with the message of the first exception
  any of these steps raises, which ends the run. The libraries are the parameters of
  the components: the CSV reader and timestamp parser of the loader, the route
  analysis' environment and the H3 grid.
\<close>

text \<open>\<open>Path(__file__).parent.parent / 'data' / 'JC-202501-citibike-tripdata.csv'\<close>, relative to the repository.\<close>

definition data_path :: string where
  "data_path = ''data/JC-202501-citibike-tripdata.csv''"

definition main_analyzers :: "analyzer list" where
  "main_analyzers = [TripA, SpatialA, CityA, RouteA]"

definition main :: "csv_reader \<Rightarrow> ts_parser \<Rightarrow> route_env \<Rightarrow> 'h h3_api \<Rightarrow> event list" where
  "main read_csv parse env api =
     Text ''Loading and processing data...'' #
     (case load read_csv parse data_path of
        Inl e \<Rightarrow> [Text (''Error: '' @ load_error_msg e)]
      | Inr df \<Rightarrow>
          Text ''\<newline>Analyzing Citibike data for January 2025...'' #
          (case run_analyzers env main_analyzers df of
             (df', evs, Inl e) \<Rightarrow> evs @ [Text (''Error: '' @ exc_str e)]
           | (df', evs, Inr u) \<Rightarrow>
               evs @ create_visualizations api (H3Visualizer df' default_resolution)
               @ [Text ''\<newline>Analysis complete!'']))"

text \<open>The files a run writes, in the order it writes them.\<close>

fun saved_paths :: "event list \<Rightarrow> string list" where
  "saved_paths [] = []"
| "saved_paths (Saved p m # evs) = p # saved_paths evs"
| "saved_paths (e # evs) = saved_paths evs"

lemma saved_paths_append [simp]: "saved_paths (xs @ ys) = saved_paths xs @ saved_paths ys"
  by (induction xs rule: saved_paths.induct) simp_all

lemma create_visualizations_trips:
  assumes "trips df1 = trips df2"
  shows "create_visualizations api (H3Visualizer df1 r) = create_visualizations api (H3Visualizer df2 r)"
  unfolding create_visualizations_def add_start_locations_def add_end_locations_def
    create_base_map_def get_hexagons_def H3Visualizer_def h3_vis.simps assms ..

lemma saved_create_visualizations:
  "saved_paths (create_visualizations api v) =
     [output_dir @ ''/citibike_start_locations.html'', output_dir @ ''/citibike_end_locations.html'']"
  by (simp add: create_visualizations_def save_maps_def Let_def)

lemma saved_get_osrm_route: "saved_paths (fst (get_osrm_route env tmpl a b)) = []"
  by (simp add: get_osrm_route_def Let_def split: sum.split)

lemma saved_route_report:
  "saved_paths (fst (route_report env v d rc)) =
     (if snd (route_report env v d rc) = Inr () then [output_dir @ ''/longest_route.html''] else [])"
  by (simp add: route_report_def visualize_route_def Let_def split: sum.split)

lemma saved_analyze_route:
  "saved_paths (fst (analyze_route env ra)) =
     (if snd (analyze_route env ra) = Inr () then [output_dir @ ''/longest_route.html''] else [])"
proof (cases "select_longest env (trips (rdf ra))")
  case (Inl e)
  then show ?thesis by (simp add: analyze_route_def)
next
  case (Inr vd)
  obtain v d where vd: "vd = (v, d)" by (cases vd)
  obtain evs r where g: "get_osrm_route env (osrm_url ra) (vstart_lng v, vstart_lat v) (vend_lng v, vend_lat v) = (evs, r)"
    by (cases "get_osrm_route env (osrm_url ra) (vstart_lng v, vstart_lat v) (vend_lng v, vend_lat v)")
  have e: "saved_paths evs = []" using saved_get_osrm_route [of env "osrm_url ra"] g by (metis fst_conv)
  show ?thesis
  proof (cases r)
    case (Inl e')
    then show ?thesis using Inr vd g e by (simp add: analyze_route_def)
  next
    case (Inr rc)
    obtain evs' r' where rr: "route_report env v d rc = (evs', r')" by (cases "route_report env v d rc")
    have "saved_paths evs' = (if r' = Inr () then [output_dir @ ''/longest_route.html''] else [])"
      using saved_route_report [of env v d rc] rr by simp
    then show ?thesis using \<open>select_longest env (trips (rdf ra)) = Inr vd\<close> vd g e Inr rr
      by (simp add: analyze_route_def)
  qed
qed

lemma run_main_analyzers:
  "run_on_copies env main_analyzers df =
     (analyze_trips df @ snd (analyze_spatial df) @ analyze_city df @ fst (analyze_route env (RouteAnalyzer df)),
      snd (analyze_route env (RouteAnalyzer df)))"
  by (simp add: main_analyzers_def split: prod.split sum.split)

lemma saved_report_analyzers:
  "saved_paths (analyze_trips df @ snd (analyze_spatial df) @ analyze_city df) = []"
  by (simp add: analyze_trips_def analyze_basic_stats_def analyze_membership_def
      analyze_stations_def analyze_temporal_patterns_def analyze_bike_types_def analyze_spatial_def
      analyze_city_def Let_def count_series_def)

lemma main_loaded:
  assumes "load read_csv parse data_path = Inr df"
  shows "main read_csv parse env api =
           Text ''Loading and processing data...'' #
           Text ''\<newline>Analyzing Citibike data for January 2025...'' #
           (case run_on_copies env main_analyzers df of
              (evs, Inl e) \<Rightarrow> evs @ [Text (''Error: '' @ exc_str e)]
            | (evs, Inr u) \<Rightarrow>
                evs @ create_visualizations api (H3Visualizer df default_resolution)
                @ [Text ''\<newline>Analysis complete!''])"
proof -
  obtain df' evs r where run: "run_analyzers env main_analyzers df = (df', evs, r)"
    by (cases "run_analyzers env main_analyzers df") auto
  have c: "run_on_copies env main_analyzers df = (evs, r)" "trips df' = trips df"
    using run_analyzers_copies [of df df env main_analyzers] run by simp_all
  show ?thesis
    using assms run c create_visualizations_trips [OF c(2), of api default_resolution]
    by (simp add: main_def split: sum.split)
qed

text \<open>
  Claim C15: when the trip file cannot be loaded, \<open>main\<close> prints the loader's message
  after \<open>Error: \<close> and stops: nothing is analysed and no file is written.
\<close>

theorem main_load_failure:
  assumes "load read_csv parse data_path = Inl e"
  shows "main read_csv parse env api =
           [Text ''Loading and processing data...'', Text (''Error: '' @ load_error_msg e)]"
  using assms by (simp add: main_def)

text \<open>
  Claim C2: when the file loads and no analysis raises, \<open>main\<close> prints the reports of
  the four analyzers, each as on its own copy of the loaded frame, then draws the two
  hexagon maps from the loaded trips; it writes the route map, then the start map, then
  the end map.
\<close>

theorem main_success:
  assumes "load read_csv parse data_path = Inr df"
    and "snd (run_on_copies env main_analyzers df) = Inr ()"
  shows "main read_csv parse env api =
           Text ''Loading and processing data...'' #
           Text ''\<newline>Analyzing Citibike data for January 2025...'' #
           fst (run_on_copies env main_analyzers df)
           @ create_visualizations api (H3Visualizer df default_resolution)
           @ [Text ''\<newline>Analysis complete!''] \<and>
         saved_paths (main read_csv parse env api) =
           [output_dir @ ''/longest_route.html'', output_dir @ ''/citibike_start_locations.html'',
            output_dir @ ''/citibike_end_locations.html'']"
proof -
  have m: "main read_csv parse env api =
           Text ''Loading and processing data...'' #
           Text ''\<newline>Analyzing Citibike data for January 2025...'' #
           fst (run_on_copies env main_analyzers df)
           @ create_visualizations api (H3Visualizer df default_resolution)
           @ [Text ''\<newline>Analysis complete!'']"
    using main_loaded [OF assms(1), of env api] assms(2)
    by (cases "run_on_copies env main_analyzers df") simp
  have r: "snd (analyze_route env (RouteAnalyzer df)) = Inr ()"
    using assms(2) by (simp add: run_main_analyzers)
  have "saved_paths (fst (run_on_copies env main_analyzers df)) = [output_dir @ ''/longest_route.html'']"
    using saved_analyze_route [of env "RouteAnalyzer df"] r saved_report_analyzers [of df]
    by (simp add: run_main_analyzers)
  with m show ?thesis by (simp add: saved_create_visualizations)
qed

text \<open>
  Claim C7: when no trip of the loaded file has all four coordinates, \<open>main\<close> prints the
  trip, spatial and city reports, then the \<open>ValueError\<close> of the route analysis, and
  writes no file at all: the hexagon maps are not drawn either.
\<close>

theorem main_no_coordinates:
  assumes "load read_csv parse data_path = Inr df"
    and "\<forall>r \<in> set (trips df).
           start_lat r = None \<or> start_lng r = None \<or> end_lat r = None \<or> end_lng r = None"
  shows "main read_csv parse env api =
           Text ''Loading and processing data...'' #
           Text ''\<newline>Analyzing Citibike data for January 2025...'' #
           analyze_trips df @ snd (analyze_spatial df) @ analyze_city df
           @ [Text ''Error: Cannot set a DataFrame with multiple columns to the single column trip_distance_km''] \<and>
         saved_paths (main read_csv parse env api) = []"
proof -
  have "dropna_coords (trips (rdf (RouteAnalyzer df))) = []"
    using dropna_coords_Nil [of "trips df"] assms(2) by (simp add: RouteAnalyzer_def)
  then have "analyze_route env (RouteAnalyzer df) = ([], Inl empty_apply_error)"
    by (simp add: analyze_route_def select_longest_def)
  then have "run_on_copies env main_analyzers df =
      (analyze_trips df @ snd (analyze_spatial df) @ analyze_city df, Inl empty_apply_error)"
    by (simp add: run_main_analyzers)
  then show ?thesis
    using main_loaded [OF assms(1), of env api] saved_report_analyzers [of df]
    by (simp add: empty_apply_error_def)
qed

lemma example_load:
  "load (\<lambda>_. Inr [r]) example_parse data_path = Inr \<lparr>trips = [mk_trip r (Some 1735718400000000000) (Some 1735719000000000000)], station_pair = None\<rparr>"
  if "started_at r = Some ''2025-01-01 08:00:00''" "ended_at r = Some ''2025-01-01 08:10:00''"
  using that by (simp add: load_def preprocess_data_def example_parse_def)

theorem main_load_failure_witness:
  "main (\<lambda>_. Inl ReadNotFound) example_parse example_env point_api =
     [Text ''Loading and processing data...'',
      Text (''Error: '' @ ''Data file not found: '' @ ''data/JC-202501-citibike-tripdata.csv'')]"
proof -
  have h: "load (\<lambda>_. Inl ReadNotFound) example_parse data_path =
      Inl (FileNotFound (''Data file not found: '' @ ''data/JC-202501-citibike-tripdata.csv''))"
    by (simp add: load_def data_path_def)
  show ?thesis using main_load_failure [OF h, of example_env point_api] by simp
qed

theorem main_success_witness:
  "saved_paths (main (\<lambda>_. Inr [example_row]) example_parse example_env point_api) =
     [output_dir @ ''/longest_route.html'', output_dir @ ''/citibike_start_locations.html'',
      output_dir @ ''/citibike_end_locations.html'']"
proof -
  let ?df = "\<lparr>trips = [example_trip], station_pair = None\<rparr>"
  have h1: "load (\<lambda>_. Inr [example_row]) example_parse data_path = Inr ?df"
    using example_load [of example_row] by (simp add: example_row_def example_trip_def)
  have dn: "dropna_coords [example_trip] = [example_longest]"
    by (simp add: dropna_coords_def valid_row_def example_trip_def mk_trip_def example_row_def example_longest_def)
  have sel: "select_longest example_env [example_trip] = Inr (example_longest, 0.0089)"
    by (simp add: select_longest_def dn example_env_def example_longest_def idxmax_def)
  have "snd (analyze_route example_env (RouteAnalyzer ?df)) = Inr ()"
    using sel by (simp add: analyze_route_def RouteAnalyzer_def get_osrm_route_def Let_def
        osrm_request_def example_env_def route_report_def visualize_route_def)
  then have h2: "snd (run_on_copies example_env main_analyzers ?df) = Inr ()"
    by (simp add: run_main_analyzers)
  show ?thesis using main_success [OF h1 h2, of point_api] by blast
qed

theorem main_no_coordinates_witness:
  "saved_paths (main (\<lambda>_. Inr [example_row\<lparr>end_lng := None\<rparr>]) example_parse example_env point_api) = []"
proof -
  let ?df = "\<lparr>trips = [mk_trip (example_row\<lparr>end_lng := None\<rparr>) (Some 1735718400000000000) (Some 1735719000000000000)],
              station_pair = None\<rparr>"
  have h1: "load (\<lambda>_. Inr [example_row\<lparr>end_lng := None\<rparr>]) example_parse data_path = Inr ?df"
    by (rule example_load) (simp_all add: example_row_def)
  have h2: "\<forall>r \<in> set (trips ?df).
      start_lat r = None \<or> start_lng r = None \<or> end_lat r = None \<or> end_lng r = None"
    by (simp add: mk_trip_def)
  show ?thesis using main_no_coordinates [OF h1 h2, of example_env point_api] by blast
qed

end
