(* ===== verification/Spec2Isabelle.thy ===== *)
theory Spec2Isabelle
  imports Pipeline
begin

text \<open>
  \<^bold>\<open>A verification model of the Citibike trip analysis (src/src).\<close>

  \<^bold>\<open>The program.\<close> \<open>main.py\<close> loads one month of Jersey City Citibike trips from a CSV
  file (\<open>data_loader.py\<close>, \<open>CitibikeDataLoader\<close>), runs four analyzers over the one
  loaded DataFrame (\<open>analyzers/\<close>: \<open>TripAnalyzer\<close>, \<open>SpatialAnalyzer\<close>,
  \<open>CityAnalyzer\<close>, \<open>RouteAnalyzer\<close>, all subclasses of \<open>BaseAnalyzer\<close>), then draws
  hexagon density maps of trip starts and ends (\<open>visualizers/h3_visualizer.py\<close>,
  \<open>H3Visualizer\<close>). The analyzers print reports; \<open>RouteAnalyzer\<close> asks the OSRM
  service for the cycling route of the longest trip and saves a map of it; the
  visualizer saves two maps. Any exception ends \<open>main\<close> with \<open>Error: <message>\<close>.

  \<^bold>\<open>The theories.\<close>
  \<^item> \<open>Prelude\<close>: Python dictionaries as insertion-ordered association lists
    (\<open>dict_get\<close>, \<open>dict_set\<close>, \<open>count_values\<close>), errors as \<open>exc + 'a\<close> with \<open>ebind\<close>,
    string formatting (\<open>py_format1\<close>, \<open>py_replace\<close>, \<open>py_in\<close>, \<open>int()\<close> and the
    \<open>:02x\<close> format with its inverse \<open>read_base\<close>), and the list and counting lemmas
    the components share.
  \<^item> \<open>Libraries\<close>: the semantics of the third-party calls the code relies on: pandas
    \<open>value_counts\<close>, \<open>head\<close>, \<open>sort_index\<close>, \<open>idxmax\<close>, \<open>mean\<close>, \<open>median\<close>, \<open>dropna\<close>;
    folium maps and layers; the Python exceptions and JSON values of the route
    analysis; the \<open>event\<close>s (prints and saved files) that are a run's observable output.
    Its lemmas are the contracts of these operations (counts, order, top-k,
    first maximum, exact length of a top-k table, the median splitting the data in
    halves).
  \<^item> \<open>Trips\<close>: \<open>CitibikeDataLoader.load\<close> and \<open>_preprocess_data\<close> (\<open>load\<close>,
    \<open>preprocess_data\<close>, \<open>to_datetime\<close>, \<open>duration_mins\<close>); a row of the CSV is the
    record \<open>row\<close>, a row of the loaded DataFrame the record \<open>trip\<close>, the DataFrame the
    record \<open>frame\<close> (its trips and the optional \<open>station_pair\<close> column).
  \<^item> \<open>Hexbin\<close>: every method of \<open>H3Visualizer\<close>, with the H3 grid as the parameter
    \<open>h3_api\<close>.
  \<^item> \<open>Route\<close>: \<open>RouteAnalyzer.analyze\<close>, \<open>_get_osrm_route\<close>, \<open>_visualize_route\<close>,
    with geodesic, HTTP, JSON decoding, polyline decoding and float formatting as the
    parameter \<open>route_env\<close>; every exception is a branch.
  \<^item> \<open>Analyzers\<close>: \<open>TripAnalyzer\<close> (its five sections), \<open>SpatialAnalyzer\<close>,
    \<open>CityAnalyzer\<close> and the \<open>BaseAnalyzer\<close> dispatch \<open>analyze\<close> over a datatype of
    the four classes; \<open>run_analyzers\<close> is the loop of \<open>main\<close> over the shared frame.
  \<^item> \<open>Pipeline\<close>: \<open>main\<close>.

  \<^bold>\<open>How state and effects are modelled.\<close> Each method is a function of its object's
  state to its output. Printing and saving are \<open>event\<close> lists returned in program
  order; an exception is the \<open>Inl\<close> of the result and stops the rest of the method, as
  in Python. All analyzers share one DataFrame object and \<open>SpatialAnalyzer\<close> writes a
  column into it; the model threads that frame explicitly through \<open>run_analyzers\<close>
  and \<open>main\<close> draws the maps from the frame the analyzers return.

  \<^bold>\<open>What is proved.\<close>
  \<^item> Loading: the duration column, the two error messages, rows kept in order.
  \<^item> Hexagons: the per-cell counts are exactly the trips in the cell, rows with a
    missing coordinate are skipped, counts add up, only cells with trips are drawn,
    the colour encodes \<open>int(255 * count / max)\<close> in two hex digits, the busiest cell is
    at full intensity, a cell under 1/255 of the maximum is black, every colour is a
    well-formed \<open>#rrggbb\<close>.
  \<^item> Route: the selected trip is the first one of largest straight-line distance;
    selection succeeds whenever one trip has coordinates; with none it raises
    \<open>ValueError\<close>; the OSRM fallback and its totality; a failing service still gives a
    report and a map; a duration that is not a number raises \<open>TypeError\<close> after exactly
    six lines of the report; a geometry that decodes to no point makes folium's
    \<open>PolyLine\<close> raise \<open>ValueError('Locations is empty.')\<close> after the whole report, and
    no map is saved; only one URL is requested.
  \<^item> Analyzers: percentages sum to 100 exactly when no value is missing; the top-5 and
    top-10 tables are correct top-k lists of exactly \<open>min k\<close> (number of distinct
    values) rows; the hourly table is sorted, within 0..23 and sums to the timed
    trips; the average duration times the number of durations is their sum, and at
    least half of the durations lie on each side of the median. The lemma
    \<open>station_pair_ambiguous\<close> shows that two different pairs of stations can share a
    route label.
  \<^item> Composition: the shared frame's invariant \<open>wf_frame\<close> (a \<open>station_pair\<close> column,
    once written, holds for each trip its start name, the arrow and its end name, or
    is missing when a name is missing) holds after \<open>load\<close> and through the analyzers;
    running the analyzers on the shared frame refines running each on its
    own copy (same output, same exception); \<open>main\<close> on a load error, on success (its
    output and the order of the three files written) and on a file with no
    coordinates (no file written at all).

  \<^bold>\<open>Bounds and fuel.\<close> No loop of the program can fail to end: every loop is over a
  list (the rows, the cells, the analyzers) and is structural recursion or a fold,
  so no fuel is needed. \<open>py_replace\<close> terminates by the measure \<open>length\<close> of the rest
  of the string. Integers are unbounded (Python); timestamps are the \<open>int\<close>
  nanoseconds of \<open>pd.Timestamp\<close>.

  \<^bold>\<open>Not modelled.\<close>
  \<^item> The libraries' own code: CSV parsing and dtype inference of \<open>pd.read_csv\<close> (a
    parameter returning the rows or the error; an all-empty column's float dtype is
    not represented), the parsing of one timestamp string, geodesic distance, HTTP,
    JSON text, polyline decoding, the H3 grid, and the HTML folium writes.
  \<^item> Timestamps: \<open>pd.to_datetime\<close> infers one format for the whole column; the model
    parses each cell with the parameter \<open>ts_parser\<close>, so a column that mixes formats
    is accepted or refused per cell. The difference \<open>ended_at - started_at\<close> is an
    unbounded integer: the int64 overflow pandas would raise for timestamps some 292
    years apart is not modelled.
  \<^item> Floating point: floats are reals, so rounding of the distances, durations,
    percentages and intensities is not modelled; \<open>int(255 * intensity)\<close> is the
    floor of the real product.
  \<^item> The layout of printed values (thousands separators, \<open>.2f\<close>, pandas' Series
    layout): an event records the value printed, not its characters.
  \<^item> The absolute directory prefix of the output and data paths, \<open>mkdir\<close>, and I/O
    failures of \<open>save\<close>; pandas' \<open>SettingWithCopyWarning\<close> on \<open>valid_trips\<close>.
  \<^item> The order pandas gives to tied counts in \<open>value_counts\<close>: the model keeps ties
    in first-appearance order, and no theorem depends on that order.
\<close>

end
